theory Spec2Isabelle
  imports Main
begin

section \<open>JavaScript strings\<close>

text \<open>
  A JavaScript string is a sequence of UTF-16 code units; \<open>length\<close>, indices and the
  regular expressions of the source (none of which has the \<open>u\<close> flag) all count code
  units. A code unit is modelled by its number, a string by the list of its code units.
  \<open>js\<close> turns a literal of the theory into such a string.
\<close>

type_synonym jsstring = "nat list"

definition js :: "string \<Rightarrow> jsstring" where
  "js cs = map of_char cs"

text \<open>\<open>s.substring(i, j)\<close> for \<open>i \<le> j\<close>; both ends are clamped to the length by the list functions.\<close>

definition substring :: "jsstring \<Rightarrow> nat \<Rightarrow> nat \<Rightarrow> jsstring" where
  "substring s i j = take (j - i) (drop i s)"

text \<open>The character classes \<open>\d\<close>, \<open>\w\<close>, \<open>\s\<close> and the line terminators that \<open>.\<close> excludes.\<close>

definition isDigit :: "nat \<Rightarrow> bool" where
  "isDigit u = (48 \<le> u \<and> u \<le> 57)"

definition isWordChar :: "nat \<Rightarrow> bool" where
  "isWordChar u = ((97 \<le> u \<and> u \<le> 122) \<or> (65 \<le> u \<and> u \<le> 90) \<or> isDigit u \<or> u = 95)"

definition isLineTerminator :: "nat \<Rightarrow> bool" where
  "isLineTerminator u = (u = 10 \<or> u = 13 \<or> u = 8232 \<or> u = 8233)"

definition isWhiteSpace :: "nat \<Rightarrow> bool" where
  "isWhiteSpace u = (u = 9 \<or> u = 10 \<or> u = 11 \<or> u = 12 \<or> u = 13 \<or> u = 32 \<or> u = 160
     \<or> u = 5760 \<or> (8192 \<le> u \<and> u \<le> 8202) \<or> u = 8232 \<or> u = 8233 \<or> u = 8239
     \<or> u = 8287 \<or> u = 12288 \<or> u = 65279)"

section \<open>Regular expressions\<close>

text \<open>
  The fragment of the ECMAScript pattern language that the source uses. Lookbehinds occur
  in the source with literal bodies only, so \<open>Behind\<close> and \<open>NotBehind\<close> take a string.
  \<open>Bos\<close> and \<open>Eos\<close> are \<open>^\<close> and \<open>$\<close> without the \<open>m\<close> flag, \<open>WordBoundary\<close> is \<open>\b\<close>.
\<close>

datatype regex =
    Lit jsstring
  | Cls "nat \<Rightarrow> bool"
  | Seq regex regex
  | Alt regex regex
  | Star regex
  | Ahead regex
  | NotAhead regex
  | Behind jsstring
  | NotBehind jsstring
  | Bos
  | Eos
  | WordBoundary

definition Plus :: "regex \<Rightarrow> regex" where
  "Plus r = Seq r (Star r)"

definition wordAt :: "jsstring \<Rightarrow> nat \<Rightarrow> bool" where
  "wordAt s i = (i < length s \<and> isWordChar (s ! i))"

text \<open>
  \<open>ends r s i\<close> lists the positions at which a match of \<open>r\<close> that starts at \<open>i\<close> can end, in
  the order in which the backtracking matcher of ECMAScript tries them: the left
  alternative before the right one, and for the greedy star one more iteration before
  none. An iteration of a star that consumes nothing is rejected, as in ECMAScript.
  The first element is the match that \<open>exec\<close> reports.
\<close>

function ends :: "regex \<Rightarrow> jsstring \<Rightarrow> nat \<Rightarrow> nat list" where
  "ends (Lit w) s i = (if take (length w) (drop i s) = w then [i + length w] else [])"
| "ends (Cls p) s i = (if i < length s \<and> p (s ! i) then [Suc i] else [])"
| "ends (Seq a b) s i = concat (map (\<lambda>j. ends b s j) (ends a s i))"
| "ends (Alt a b) s i = ends a s i @ ends b s i"
| "ends (Star a) s i =
     concat (map (\<lambda>j. ends (Star a) s j) (filter (\<lambda>j. i < j \<and> j \<le> length s) (ends a s i))) @ [i]"
| "ends (Ahead a) s i = (if ends a s i = [] then [] else [i])"
| "ends (NotAhead a) s i = (if ends a s i = [] then [i] else [])"
| "ends (Behind w) s i =
     (if length w \<le> i \<and> take (length w) (drop (i - length w) s) = w then [i] else [])"
| "ends (NotBehind w) s i =
     (if length w \<le> i \<and> take (length w) (drop (i - length w) s) = w then [] else [i])"
| "ends Bos s i = (if i = 0 then [i] else [])"
| "ends Eos s i = (if i = length s then [i] else [])"
| "ends WordBoundary s i = (if (0 < i \<and> wordAt s (i - 1)) \<noteq> wordAt s i then [i] else [])"
  by pat_completeness auto
termination
  by (relation "inv_image (less_than <*lex*> less_than) (\<lambda>(r, s, i). (size r, Suc (length s) - i))")
     auto

text \<open>
  The equation of the star applies to its own right-hand side; it is unfolded by hand.
\<close>

declare ends.simps(5) [simp del]

text \<open>
  \<open>matchAt r s i\<close>: the end of the match of \<open>r\<close> that starts at \<open>i\<close>, if there is one.
  \<open>exec r s i\<close> is \<open>RegExp.prototype.exec\<close> with \<open>lastIndex = i\<close>: it reports the first
  position from \<open>i\<close> on at which \<open>r\<close> matches, as (index, end).
\<close>

definition matchAt :: "regex \<Rightarrow> jsstring \<Rightarrow> nat \<Rightarrow> nat option" where
  "matchAt r s i = (case ends r s i of [] \<Rightarrow> None | j # _ \<Rightarrow> Some j)"

function exec :: "regex \<Rightarrow> jsstring \<Rightarrow> nat \<Rightarrow> (nat \<times> nat) option" where
  "exec r s i =
     (if length s < i then None
      else case matchAt r s i of
             Some j \<Rightarrow> Some (i, j)
           | None \<Rightarrow> exec r s (Suc i))"
  by pat_completeness auto
termination
  by (relation "measure (\<lambda>(r, s, i). Suc (length s) - i)") auto

declare exec.simps [simp del]

definition test :: "regex \<Rightarrow> jsstring \<Rightarrow> bool" where
  "test r s = (exec r s 0 \<noteq> None)"

text \<open>A match lies within the string, from its start on.\<close>

lemma ends_bounds:
  "j \<in> set (ends r s i) \<Longrightarrow> i \<le> j \<and> (i \<le> length s \<longrightarrow> j \<le> length s)"
proof (induction r s i arbitrary: j rule: ends.induct)
  case (1 w s i)
  then have w: "take (length w) (drop i s) = w" and j: "j = i + length w"
    by (auto split: if_splits)
  have "length (take (length w) (drop i s)) = length w"
    by (rule arg_cong [OF w])
  then have "length w \<le> length s - i"
    by simp
  with j show ?case by auto
next
  case (3 a b s i)
  then obtain k where k: "k \<in> set (ends a s i)" and j: "j \<in> set (ends b s k)"
    by auto
  from "3.IH"(1) [OF k] "3.IH"(2) [OF k j] show ?case by auto
next
  case (5 a s i)
  from "5.prems" consider "j = i"
    | k where "k \<in> set (ends a s i)" "i < k" "k \<le> length s" "j \<in> set (ends (Star a) s k)"
    by (subst (asm) ends.simps(5)) auto
  then show ?case
  proof cases
    case 1
    then show ?thesis by simp
  next
    case 2
    with "5.IH"(2) [of k j] show ?thesis by auto
  qed
qed (auto split: if_splits)

lemma matchAt_bounds:
  "matchAt r s i = Some j \<Longrightarrow> i \<le> j \<and> (i \<le> length s \<longrightarrow> j \<le> length s)"
  using ends_bounds [of j r s i] by (auto simp: matchAt_def split: list.splits)

lemma matchAt_in_ends: "matchAt r s i = Some j \<Longrightarrow> j \<in> set (ends r s i)"
  by (auto simp: matchAt_def split: list.splits)

lemma exec_bounds:
  "exec r s i = Some (k, j) \<Longrightarrow> i \<le> k \<and> k \<le> length s \<and> k \<le> j \<and> j \<le> length s"
proof (induction r s i rule: exec.induct)
  case (1 r s i)
  from "1.prems" have le: "\<not> length s < i"
    by (subst (asm) exec.simps) (simp split: if_splits)
  show ?case
  proof (cases "matchAt r s i")
    case None
    with "1.prems" le have "exec r s (Suc i) = Some (k, j)"
      by (subst (asm) exec.simps) simp
    from "1.IH" [OF le None this] show ?thesis by simp
  next
    case (Some e)
    with "1.prems" le have "k = i" "j = e"
      by (subst (asm) exec.simps, simp)+
    with Some le matchAt_bounds [of r s i e] show ?thesis by simp
  qed
qed

text \<open>
  \<open>matchAll r s\<close> lists the matches of a pattern with the \<open>g\<close> flag, as (index, end), in
  the order in which \<open>s.matchAll(r)\<close> yields them.
\<close>

function matchAllFrom :: "regex \<Rightarrow> jsstring \<Rightarrow> nat \<Rightarrow> (nat \<times> nat) list" where
  "matchAllFrom r s i =
     (case exec r s i of
        None \<Rightarrow> []
      | Some (k, j) \<Rightarrow> (k, j) # matchAllFrom r s (if j = k then Suc j else j))"
  by pat_completeness auto
termination
proof (relation "measure (\<lambda>(r, s, i). Suc (length s) - i)", goal_cases)
  case 1
  show ?case by simp
next
  case (2 r s i x k j)
  then have "exec r s i = Some (k, j)" by simp
  from exec_bounds [OF this] show ?case by auto
qed

declare matchAllFrom.simps [simp del]

definition matchAll :: "regex \<Rightarrow> jsstring \<Rightarrow> (nat \<times> nat) list" where
  "matchAll r s = matchAllFrom r s 0"


text \<open>
  \<open>replaceAll r f s\<close> is \<open>s.replace(r, f)\<close> for a pattern with the \<open>g\<close> flag and a replacer
  function: the matches are found from left to right in the original string, the search
  resuming at the end of the previous match, or one position later after an empty match.
  \<open>replaceFirst\<close> is the same call for a pattern without the \<open>g\<close> flag.
\<close>

function replaceFrom :: "regex \<Rightarrow> (jsstring \<Rightarrow> jsstring) \<Rightarrow> jsstring \<Rightarrow> nat \<Rightarrow> jsstring" where
  "replaceFrom r f s i =
     (if length s < i then []
      else case matchAt r s i of
             None \<Rightarrow> (if i < length s then s ! i # replaceFrom r f s (Suc i) else [])
           | Some j \<Rightarrow>
               if i < j \<and> j \<le> length s then f (substring s i j) @ replaceFrom r f s j
               else f [] @ (if i < length s then s ! i # replaceFrom r f s (Suc i) else []))"
  by pat_completeness auto
termination
  by (relation "measure (\<lambda>(r, f, s, i). Suc (length s) - i)") auto

declare replaceFrom.simps [simp del]

definition replaceAll :: "regex \<Rightarrow> (jsstring \<Rightarrow> jsstring) \<Rightarrow> jsstring \<Rightarrow> jsstring" where
  "replaceAll r f s = replaceFrom r f s 0"

definition replaceFirst :: "regex \<Rightarrow> (jsstring \<Rightarrow> jsstring) \<Rightarrow> jsstring \<Rightarrow> jsstring" where
  "replaceFirst r f s =
     (case exec r s 0 of
        None \<Rightarrow> s
      | Some (i, j) \<Rightarrow> take i s @ f (substring s i j) @ drop j s)"

text \<open>A sequence of several patterns, and the one-character literal.\<close>

definition Seqs :: "regex list \<Rightarrow> regex" where
  "Seqs rs = foldr Seq rs (Lit [])"

definition Chr :: "char \<Rightarrow> regex" where
  "Chr c = Lit [of_char c]"

text \<open>\<open>\s\<close>.\<close>

definition whiteSpace :: regex where
  "whiteSpace = Cls isWhiteSpace"

section \<open>Positions, ranges and text documents of the editor\<close>

text \<open>
  The editor's \<open>Position\<close>, \<open>Range\<close> and \<open>TextDocument\<close> are not part of the repository;
  they are modelled after the editor's API. Positions are compared by line, then by
  character.
\<close>

record Position =
  line :: nat
  character :: nat

definition isBefore :: "Position \<Rightarrow> Position \<Rightarrow> bool" where
  "isBefore a b = (line a < line b \<or> (line a = line b \<and> character a < character b))"

definition isAfter :: "Position \<Rightarrow> Position \<Rightarrow> bool" where
  "isAfter a b = isBefore b a"

definition isBeforeOrEqual :: "Position \<Rightarrow> Position \<Rightarrow> bool" where
  "isBeforeOrEqual a b = (\<not> isBefore b a)"

record Range =
  start :: Position
  end' :: Position

text \<open>\<open>range.contains(position)\<close>: both ends are included.\<close>

definition contains :: "Range \<Rightarrow> Position \<Rightarrow> bool" where
  "contains r p = (\<not> isBefore p (start r) \<and> \<not> isBefore (end' r) p)"

text \<open>
  A text document: its path and its text. A line ends at a carriage return followed by
  a line feed (code units 13 and 10), at a line feed or at a carriage return; a
  document has at least one line.
\<close>

record TextDocument =
  uri :: jsstring
  content :: jsstring

text \<open>
  The lines of a text, each with the length of the line terminator that follows it;
  no terminator follows the last line.
\<close>

fun terminatedLines :: "jsstring \<Rightarrow> (jsstring \<times> nat) list" where
  "terminatedLines [] = [([], 0)]"
| "terminatedLines [c] = (if c = 10 \<or> c = 13 then [([], 1), ([], 0)] else [([c], 0)])"
| "terminatedLines (c # d # cs) =
     (if c = 13 \<and> d = 10 then ([], 2) # terminatedLines cs
      else if c = 10 \<or> c = 13 then ([], 1) # terminatedLines (d # cs)
      else case terminatedLines (d # cs) of
             [] \<Rightarrow> [([c], 0)]
           | (l, e) # ls \<Rightarrow> (c # l, e) # ls)"

definition splitLines :: "jsstring \<Rightarrow> jsstring list" where
  "splitLines s = map fst (terminatedLines s)"

text \<open>The text with the given lines, for the examples.\<close>

definition joinLines :: "jsstring list \<Rightarrow> jsstring" where
  "joinLines ls = (case ls of [] \<Rightarrow> [] | l # rest \<Rightarrow> l @ concat (map (\<lambda>x. 10 # x) rest))"

definition lineCount :: "TextDocument \<Rightarrow> nat" where
  "lineCount d = length (splitLines (content d))"

text \<open>
  \<open>offsetAt\<close> first adjusts the position to the document, as the editor does: a line
  past the end becomes the end of the last line, a character past the end of its line
  becomes the end of that line.
\<close>

definition validatePosition :: "TextDocument \<Rightarrow> Position \<Rightarrow> Position" where
  "validatePosition d p =
     (let ls = splitLines (content d)
      in if length ls \<le> line p
         then \<lparr>line = length ls - 1, character = length (last ls)\<rparr>
         else \<lparr>line = line p, character = min (character p) (length (ls ! line p))\<rparr>)"

definition offsetAt :: "TextDocument \<Rightarrow> Position \<Rightarrow> nat" where
  "offsetAt d p =
     (let ls = terminatedLines (content d); q = validatePosition d p
      in sum_list (map (\<lambda>(l, e). length l + e) (take (line q) ls)) + character q)"

definition getText :: "TextDocument \<Rightarrow> Range \<Rightarrow> jsstring" where
  "getText d r = substring (content d) (offsetAt d (start r)) (offsetAt d (end' r))"

text \<open>
  A line of a document as \<open>lineAt\<close> gives it: its text, its range and whether it has
  nothing but white space. \<open>lineAt\<close> throws for a line that the document does not have;
  this is \<open>None\<close>.
\<close>

record TextLine =
  lineText :: jsstring
  range' :: Range
  isEmptyOrWhitespace :: bool

text \<open>A location, and a location link as the definition provider may give it.\<close>

record Location =
  uri :: jsstring
  range' :: Range

record LocationLink =
  targetUri :: jsstring
  targetRange :: Range

section \<open>Symbols\<close>

datatype SymbolKind =
    FileKind | ModuleKind | NamespaceKind | PackageKind | ClassKind | MethodKind
  | PropertyKind | FieldKind | ConstructorKind | EnumKind | InterfaceKind | FunctionKind
  | VariableKind | ConstantKind | StringKind | NumberKind | BooleanKind | ArrayKind
  | ObjectKind | KeyKind | NullKind | EnumMemberKind | StructKind | EventKind
  | OperatorKind | TypeParameterKind

text \<open>
  The editor's \<open>DocumentSymbol\<close>. JavaScript compares objects by reference: \<open>rangeRef\<close> is
  the reference that the field \<open>range\<close> holds, \<open>range'\<close> the Range object it refers to.
  The constructors below pass the reference on, as the source does.
\<close>

datatype DocumentSymbol =
  DocumentSymbol (name: jsstring) (detail: jsstring) (kind: SymbolKind) (rangeRef: nat)
    (range': Range) (selectionRange: Range) (children: "DocumentSymbol list")

text \<open>
  \<open>SourceSymbol\<close> adds the file and the parent. A value of HOL is a finite tree, so the
  parent kept in a child is a copy of the parent: it has the parent's fields, the
  parent's own parent and the parent's children, and in these children the link back to
  the parent is left out.
\<close>

datatype SourceSymbol =
  SourceSymbol (name: jsstring) (detail: jsstring) (kind: SymbolKind) (rangeRef: nat)
    (range': Range) (selectionRange: Range) (uri: jsstring)
    (parent: "SourceSymbol option") (children: "SourceSymbol list")

text \<open>
  \<open>Array.prototype.sort\<close> with a comparison function, as the insertion sort that the
  engine applies to a short array: the elements are placed one after the other, in the
  order of the array, and an element goes after the elements already placed that the
  comparison function puts before it and before the first one that it does not. The
  comparison function of the source is never zero, so of two elements that start at
  the same position the later one of the array comes first.
\<close>

fun insertBy :: "('a \<Rightarrow> 'a \<Rightarrow> int) \<Rightarrow> 'a \<Rightarrow> 'a list \<Rightarrow> 'a list" where
  "insertBy cmp x [] = [x]"
| "insertBy cmp x (y # ys) = (if 0 < cmp x y then y # insertBy cmp x ys else x # y # ys)"

definition arraySort :: "('a \<Rightarrow> 'a \<Rightarrow> int) \<Rightarrow> 'a list \<Rightarrow> 'a list" where
  "arraySort cmp xs = foldl (\<lambda>placed x. insertBy cmp x placed) [] xs"

text \<open>The comparison function of both calls of \<open>sort\<close> in the source.\<close>

definition compareStart :: "DocumentSymbol \<Rightarrow> DocumentSymbol \<Rightarrow> int" where
  "compareStart a b =
     (if isAfter (start (DocumentSymbol.range' a)) (start (DocumentSymbol.range' b)) then 1 else - 1)"

lemma set_insertBy: "set (insertBy cmp x xs) = insert x (set xs)"
  by (induction xs) auto

lemma set_foldl_insertBy:
  "set (foldl (\<lambda>placed x. insertBy cmp x placed) ys xs) = set ys \<union> set xs"
  by (induction xs arbitrary: ys) (auto simp: set_insertBy)

lemma set_arraySort: "set (arraySort cmp xs) = set xs"
  by (simp add: arraySort_def set_foldl_insertBy)

text \<open>The constructor of \<open>SourceSymbol\<close>.\<close>

function newSourceSymbol ::
  "DocumentSymbol \<Rightarrow> jsstring \<Rightarrow> SourceSymbol option \<Rightarrow> SourceSymbol" where
  "newSourceSymbol (DocumentSymbol n d k rr r sr cs) u p =
     (let sorted = arraySort compareStart cs;
          this = SourceSymbol n d k rr r sr u p (map (\<lambda>child. newSourceSymbol child u None) sorted)
      in SourceSymbol n d k rr r sr u p (map (\<lambda>child. newSourceSymbol child u (Some this)) sorted))"
  by pat_completeness auto
termination
  by (relation "measure (\<lambda>(d, u, p). size d)")
     (auto simp: set_arraySort less_Suc_eq_le size_list_estimation')

declare newSourceSymbol.simps [simp del]


text \<open>
  A source file has its uri and, once they have been asked for, its symbols; a source
  document is a source file with the open text document.
\<close>

record SourceFile =
  uri :: jsstring
  symbols :: "SourceSymbol list option"

record SourceDocument = SourceFile +
  document :: TextDocument

text \<open>
  \<open>CSymbol\<close> extends \<open>SourceSymbol\<close> by the document: a CSymbol is a SourceSymbol
  together with the document it lies in, and its parent and its children are the
  parent and the children of that SourceSymbol over the same document.
\<close>

record CSymbol =
  symbol :: SourceSymbol
  document :: TextDocument

definition kind :: "CSymbol \<Rightarrow> SymbolKind" where
  "kind this = SourceSymbol.kind (symbol this)"

definition range' :: "CSymbol \<Rightarrow> Range" where
  "range' this = SourceSymbol.range' (symbol this)"

definition selectionRange :: "CSymbol \<Rightarrow> Range" where
  "selectionRange this = SourceSymbol.selectionRange (symbol this)"

definition children :: "CSymbol \<Rightarrow> CSymbol list" where
  "children this =
     map (\<lambda>c. \<lparr>symbol = c, document = document this\<rparr>) (SourceSymbol.children (symbol this))"

definition parent :: "CSymbol \<Rightarrow> CSymbol option" where
  "parent this =
     map_option (\<lambda>p. \<lparr>symbol = p, document = document this\<rparr>) (SourceSymbol.parent (symbol this))"

text \<open>A SourceSymbol seen as the DocumentSymbol that it extends.\<close>

fun asDocumentSymbol :: "SourceSymbol \<Rightarrow> DocumentSymbol" where
  "asDocumentSymbol (SourceSymbol n d k rr r sr u p cs) =
     DocumentSymbol n d k rr r sr (map asDocumentSymbol cs)"

text \<open>
  The constructor of \<open>CSymbol\<close>. The call of the constructor of the superclass sorts the
  children of the symbol it is given and builds the fields of a SourceSymbol; the
  children are then built by the same constructor with the new symbol as their parent,
  which is what the constructor of the superclass builds together with the document.
  When no parent is given and the symbol has one, the parent is built from the
  symbol's parent.
\<close>

function newCSymbol :: "SourceSymbol \<Rightarrow> TextDocument \<Rightarrow> CSymbol option \<Rightarrow> CSymbol" where
  "newCSymbol (SourceSymbol n d k rr r sr u sp cs) doc par =
     (let p = (case (sp, par) of
                 (Some sparent, None) \<Rightarrow> Some (symbol (newCSymbol sparent doc None))
               | _ \<Rightarrow> map_option symbol par)
      in \<lparr>symbol = newSourceSymbol (asDocumentSymbol (SourceSymbol n d k rr r sr u sp cs))
                     (TextDocument.uri doc) p,
          document = doc\<rparr>)"
  by pat_completeness auto
termination
  by (relation "measure (\<lambda>(src, doc, par). size src)") auto

declare newCSymbol.simps [simp del]

text \<open>The constructor applied to a DocumentSymbol that is not a SourceSymbol.\<close>

definition newCSymbolOfDocumentSymbol ::
  "DocumentSymbol \<Rightarrow> TextDocument \<Rightarrow> CSymbol option \<Rightarrow> CSymbol" where
  "newCSymbolOfDocumentSymbol docSymbol doc par =
     \<lparr>symbol = newSourceSymbol docSymbol (TextDocument.uri doc) (map_option symbol par),
      document = doc\<rparr>"

definition text' :: "CSymbol \<Rightarrow> jsstring" where
  "text' this = getText (document this) (range' this)"

definition id' :: "CSymbol \<Rightarrow> jsstring" where
  "id' this = getText (document this) (selectionRange this)"

definition isMemberVariable :: "CSymbol \<Rightarrow> bool" where
  "isMemberVariable this = (kind this = FieldKind)"

definition isFunction :: "CSymbol \<Rightarrow> bool" where
  "isFunction this =
     (case kind this of
        OperatorKind \<Rightarrow> True
      | MethodKind \<Rightarrow> True
      | ConstructorKind \<Rightarrow> True
      | FunctionKind \<Rightarrow> True
      | _ \<Rightarrow> False)"

subsection \<open>Names of accessors\<close>

text \<open>The patterns of \<open>baseName\<close>, in the order of the source.\<close>

definition underscore :: regex where
  "underscore = Chr CHR ''_''"

definition wordOrUnderscore :: regex where
  "wordOrUnderscore = Cls (\<lambda>u. isWordChar u \<or> u = 95)"

definition wordDigitOrUnderscore :: regex where
  "wordDigitOrUnderscore = Cls (\<lambda>u. isWordChar u \<or> isDigit u \<or> u = 95)"

definition re_leadingUnderscores :: regex where
  \<comment> \<open>\<^verbatim>\<open>/^_+[\w_][\w\d_]*_*$/\<close>\<close>
  "re_leadingUnderscores =
     Seqs [Bos, Plus underscore, wordOrUnderscore, Star wordDigitOrUnderscore, Star underscore, Eos]"

definition re_stripLeading :: regex where
  \<comment> \<open>\<^verbatim>\<open>/^_+|_*$/g\<close>\<close>
  "re_stripLeading = Alt (Seq Bos (Plus underscore)) (Seq (Star underscore) Eos)"

definition re_trailingUnderscores :: regex where
  \<comment> \<open>\<^verbatim>\<open>/^_*[\w_][\w\d_]*_+$/\<close>\<close>
  "re_trailingUnderscores =
     Seqs [Bos, Star underscore, wordOrUnderscore, Star wordDigitOrUnderscore, Plus underscore, Eos]"

definition re_stripTrailing :: regex where
  \<comment> \<open>\<^verbatim>\<open>/^_*|_+$/g\<close>\<close>
  "re_stripTrailing = Alt (Seq Bos (Star underscore)) (Seq (Plus underscore) Eos)"

definition re_mPrefix :: regex where
  \<comment> \<open>\<^verbatim>\<open>/^m_[\w_][\w\d_]*$/\<close>\<close>
  "re_mPrefix = Seqs [Bos, Lit (js ''m_''), wordOrUnderscore, Star wordDigitOrUnderscore, Eos]"

definition re_stripM :: regex where
  \<comment> \<open>\<^verbatim>\<open>/^m_/\<close>\<close>
  "re_stripM = Seq Bos (Lit (js ''m_''))"

text \<open>
  An optional string is \<open>None\<close> when it is \<open>undefined\<close>. \<open>truthy\<close> is the test that
  \<open>if (x)\<close> and \<open>x ? a : b\<close> make of it: the empty string counts as absent.
\<close>

definition truthy :: "jsstring option \<Rightarrow> bool" where
  "truthy x = (x \<noteq> None \<and> x \<noteq> Some [])"

definition baseNameOf :: "jsstring \<Rightarrow> jsstring" where
  "baseNameOf memberName =
     (let baseMemberName = None;
          baseMemberName =
            (if test re_leadingUnderscores memberName \<and> \<not> truthy baseMemberName
             then Some (replaceAll re_stripLeading (\<lambda>m. []) memberName) else baseMemberName);
          baseMemberName =
            (if test re_trailingUnderscores memberName \<and> \<not> truthy baseMemberName
             then Some (replaceAll re_stripTrailing (\<lambda>m. []) memberName) else baseMemberName);
          baseMemberName =
            (if test re_mPrefix memberName \<and> \<not> truthy baseMemberName
             then Some (replaceFirst re_stripM (\<lambda>m. []) memberName) else baseMemberName)
      in if truthy baseMemberName then the baseMemberName else memberName)"

definition baseName :: "CSymbol \<Rightarrow> jsstring" where
  "baseName this = baseNameOf (id' this)"

text \<open>
  Modelled from the spec: \<open>util.firstCharToUpper\<close> is not among the sources; the spec
  calls it capitalize. The first character is put in upper case (the letters a to z;
  any other first character is kept), the rest of the string is kept.
\<close>

definition toUpperCase1 :: "nat \<Rightarrow> nat" where
  "toUpperCase1 u = (if 97 \<le> u \<and> u \<le> 122 then u - 32 else u)"

definition firstCharToUpper :: "jsstring \<Rightarrow> jsstring" where
  "firstCharToUpper str = (case str of [] \<Rightarrow> [] | c # cs \<Rightarrow> toUpperCase1 c # cs)"

definition getterName :: "CSymbol \<Rightarrow> jsstring option \<Rightarrow> jsstring" where
  "getterName this memberBaseName =
     (if \<not> isMemberVariable this then []
      else let memberBaseName = (if truthy memberBaseName then the memberBaseName else baseName this)
           in if memberBaseName = id' this then js ''get'' @ firstCharToUpper memberBaseName
              else memberBaseName)"

definition setterName :: "CSymbol \<Rightarrow> jsstring option \<Rightarrow> jsstring" where
  "setterName this memberBaseName =
     (if \<not> isMemberVariable this then []
      else let memberBaseName = (if truthy memberBaseName then the memberBaseName else baseName this)
           in js ''set'' @ firstCharToUpper memberBaseName)"

text \<open>
  A member variable for the examples: the one-line document \<open>int <identifier>;\<close> with
  the field that it declares.
\<close>

definition fieldNamed :: "jsstring \<Rightarrow> CSymbol" where
  "fieldNamed ident =
     \<lparr>symbol = SourceSymbol ident [] FieldKind 1
                 \<lparr>start = \<lparr>line = 0, character = 0\<rparr>, end' = \<lparr>line = 0, character = 5 + length ident\<rparr>\<rparr>
                 \<lparr>start = \<lparr>line = 0, character = 4\<rparr>, end' = \<lparr>line = 0, character = 4 + length ident\<rparr>\<rparr>
                 (js ''/a.h'') None [],
      document = \<lparr>TextDocument.uri = js ''/a.h'', content = js ''int '' @ ident @ js '';''\<rparr>\<rparr>"

text \<open>A method for the examples: the one-line document \<open>int <identifier>();\<close>.\<close>

definition methodNamed :: "jsstring \<Rightarrow> CSymbol" where
  "methodNamed ident =
     \<lparr>symbol = SourceSymbol (ident @ js ''()'') (js ''declaration'') MethodKind 1
                 \<lparr>start = \<lparr>line = 0, character = 0\<rparr>, end' = \<lparr>line = 0, character = 6 + length ident\<rparr>\<rparr>
                 \<lparr>start = \<lparr>line = 0, character = 4\<rparr>, end' = \<lparr>line = 0, character = 4 + length ident\<rparr>\<rparr>
                 (js ''/a.h'') None [],
      document = \<lparr>TextDocument.uri = js ''/a.h'', content = js ''int '' @ ident @ js ''();''\<rparr>\<rparr>"

section \<open>Position of a new method\<close>

record ProposedPosition =
  "value" :: Position
  before :: "bool option"
  after :: "bool option"
  nextTo :: "bool option"

text \<open>\<open>CSymbol.isBefore(offset)\<close> and \<open>CSymbol.isAfter(offset)\<close>.\<close>

definition isBeforeOffset :: "CSymbol \<Rightarrow> nat \<Rightarrow> bool" where
  "isBeforeOffset this offset = (offsetAt (document this) (end' (range' this)) < offset)"

definition isAfterOffset :: "CSymbol \<Rightarrow> nat \<Rightarrow> bool" where
  "isAfterOffset this offset = (offsetAt (document this) (start (range' this)) > offset)"

definition lastChildPositionOrUndefined :: "CSymbol \<Rightarrow> ProposedPosition option" where
  "lastChildPositionOrUndefined this =
     (if children this = [] then None
      else Some \<lparr>value = end' (range' (children this ! (length (children this) - 1))),
                 before = None, after = Some True, nextTo = None\<rparr>)"

definition symbolIsBetween :: "CSymbol \<Rightarrow> nat \<Rightarrow> nat \<Rightarrow> bool" where
  "symbolIsBetween s afterOffset beforeOffset =
     (if isFunction s \<and> isAfterOffset s afterOffset \<and> isBeforeOffset s beforeOffset
      then True else False)"

definition re_public :: regex where
  \<comment> \<open>\<^verbatim>\<open>/\bpublic\s*:/g\<close>\<close>
  "re_public = Seqs [WordBoundary, Lit (js ''public''), Star whiteSpace, Lit (js '':'')]"

definition re_accessSpecifier :: regex where
  \<comment> \<open>\<^verbatim>\<open>/\w[\w\d]*\s*:(?!:)/g\<close>\<close>
  "re_accessSpecifier =
     Seqs [Cls isWordChar, Star (Cls (\<lambda>u. isWordChar u \<or> isDigit u)), Star whiteSpace,
           Lit (js '':''), NotAhead (Lit (js '':''))]"

text \<open>
  The index of the first \<open>public:\<close> in the text of the symbol; \<open>None\<close> when \<open>exec\<close> finds no
  match.
\<close>

definition publicSpecifierIndex :: "CSymbol \<Rightarrow> nat option" where
  "publicSpecifierIndex this = map_option fst (exec re_public (text' this) 0)"

text \<open>
  The loop over \<open>text.matchAll(...)\<close>: the index of the first match whose index is not
  zero and is greater than \<open>publicSpecifierOffset\<close>.
\<close>

definition nextAccessSpecifierIndex :: "CSymbol \<Rightarrow> nat \<Rightarrow> nat option" where
  "nextAccessSpecifierIndex this publicSpecifierOffset =
     map_option fst
       (find (\<lambda>m. fst m \<noteq> 0 \<and> fst m > publicSpecifierOffset)
             (matchAll re_accessSpecifier (text' this)))"

definition nextAccessSpecifierOffset :: "CSymbol \<Rightarrow> nat \<Rightarrow> nat" where
  "nextAccessSpecifierOffset this publicSpecifierOffset =
     (case nextAccessSpecifierIndex this publicSpecifierOffset of
        None \<Rightarrow> offsetAt (document this) (end' (range' this))
      | Some n \<Rightarrow> if n = 0 then offsetAt (document this) (end' (range' this))
                  else n + offsetAt (document this) (start (range' this)))"

text \<open>\<open>new CSymbol(this.children[i], this.document, this)\<close>.\<close>

definition childSymbol :: "CSymbol \<Rightarrow> nat \<Rightarrow> CSymbol" where
  "childSymbol this i = newCSymbol (symbol (children this ! i)) (document this) (Some this)"

text \<open>
  The loop \<open>for (i = from; i >= 0; --i)\<close> that stops at the first index where a test
  holds, started with \<open>Suc from\<close>.
\<close>

fun searchDown :: "(nat \<Rightarrow> bool) \<Rightarrow> nat \<Rightarrow> nat option" where
  "searchDown holds 0 = None"
| "searchDown holds (Suc i) = (if holds i then Some i else searchDown holds i)"

definition findPositionForNewMethod ::
  "CSymbol \<Rightarrow> jsstring option \<Rightarrow> CSymbol option \<Rightarrow> ProposedPosition option" where
  "findPositionForNewMethod this relativeName memberVariable =
     (if kind this \<noteq> ClassKind \<and> kind this \<noteq> StructKind
      then lastChildPositionOrUndefined this
      else
        let startOffset = offsetAt (document this) (start (range' this));
            publicSpecifierOffset = publicSpecifierIndex this
        in if publicSpecifierOffset = None \<or> publicSpecifierOffset = Some 0
           then lastChildPositionOrUndefined this
           else
             let publicSpecifierOffset = the publicSpecifierOffset + startOffset;
                 nextAccessSpecifierOffset = nextAccessSpecifierOffset this publicSpecifierOffset;
                 fallbackIndex =
                   searchDown (\<lambda>i. symbolIsBetween (childSymbol this i) publicSpecifierOffset
                                      nextAccessSpecifierOffset)
                     (length (children this))
             in if fallbackIndex = None \<or> fallbackIndex = Some 0
                then lastChildPositionOrUndefined this
                else
                  let fallbackPosition =
                        \<lparr>value = end' (range' (childSymbol this (the fallbackIndex))),
                         before = None, after = Some True, nextTo = None\<rparr>
                  in if \<not> truthy relativeName then Some fallbackPosition
                     else
                       let isGetter = (case memberVariable of
                                         None \<Rightarrow> False
                                       | Some m \<Rightarrow> the relativeName = setterName m None)
                       in case searchDown
                                 (\<lambda>i. symbolIsBetween (childSymbol this i) publicSpecifierOffset
                                         nextAccessSpecifierOffset
                                       \<and> id' (childSymbol this i) = the relativeName)
                                 (Suc (the fallbackIndex)) of
                            None \<Rightarrow> Some fallbackPosition
                          | Some i \<Rightarrow>
                              if isGetter
                              then Some \<lparr>value = start (range' (childSymbol this i)),
                                         before = Some True, after = None, nextTo = Some True\<rparr>
                              else Some \<lparr>value = end' (range' (childSymbol this i)),
                                         before = None, after = Some True, nextTo = Some True\<rparr>)"

text \<open>
  The end of the public section for a symbol that starts at offset 0 of its document,
  where an index into the text of the symbol is an offset into the document: the first
  token after index \<open>p\<close> that \<open>re_accessSpecifier\<close> matches in the text of the symbol, or
  the end of the symbol when there is none.
\<close>

definition publicSectionEnd :: "CSymbol \<Rightarrow> nat \<Rightarrow> nat" where
  "publicSectionEnd this p =
     (case find (\<lambda>m. p < fst m) (matchAll re_accessSpecifier (text' this)) of
        None \<Rightarrow> offsetAt (document this) (end' (range' this))
      | Some m \<Rightarrow> fst m)"

text \<open>
  \<open>anchoredAt this p i pos\<close>: the position is the start or the end of child \<open>i\<close>, a function
  that starts after offset \<open>p\<close> and ends before the end of the public section.
\<close>

definition anchoredAt :: "CSymbol \<Rightarrow> nat \<Rightarrow> nat \<Rightarrow> ProposedPosition \<Rightarrow> bool" where
  "anchoredAt this p i pos =
     (i < length (children this) \<and> isFunction (children this ! i)
      \<and> p < offsetAt (document this) (start (range' (children this ! i)))
      \<and> offsetAt (document this) (end' (range' (children this ! i))) < publicSectionEnd this p
      \<and> (value pos = start (range' (children this ! i))
         \<or> value pos = end' (range' (children this ! i))))"

text \<open>
  The class of the end-to-end scenario of the spec, in the document
  \<^verbatim>\<open>class A {\<close>, \<^verbatim>\<open>public:\<close>, \<^verbatim>\<open>  int getX();\<close>, \<^verbatim>\<open>  void setX(int x);\<close>, \<^verbatim>\<open>private:\<close>,
  \<^verbatim>\<open>  int m_x;\<close>, \<^verbatim>\<open>};\<close>
  with its three children.
\<close>

definition rangeOf :: "nat \<Rightarrow> nat \<Rightarrow> nat \<Rightarrow> nat \<Rightarrow> Range" where
  "rangeOf l c m d = \<lparr>start = \<lparr>line = l, character = c\<rparr>, end' = \<lparr>line = m, character = d\<rparr>\<rparr>"

definition accessorsSymbol :: DocumentSymbol where
  "accessorsSymbol =
     DocumentSymbol (js ''A'') [] ClassKind 1 (rangeOf 0 0 6 1) (rangeOf 0 6 0 7)
       [DocumentSymbol (js ''getX()'') (js ''declaration'') MethodKind 2
          (rangeOf 2 2 2 12) (rangeOf 2 6 2 10) [],
        DocumentSymbol (js ''setX(int)'') (js ''declaration'') MethodKind 3
          (rangeOf 3 2 3 18) (rangeOf 3 7 3 11) [],
        DocumentSymbol (js ''m_x'') [] FieldKind 4 (rangeOf 5 2 5 9) (rangeOf 5 6 5 9) []]"

definition accessorsClass :: CSymbol where
  "accessorsClass =
     newCSymbolOfDocumentSymbol accessorsSymbol
       \<lparr>TextDocument.uri = js ''/a.h'',
        content = joinLines [js ''class A {'', js ''public:'', js ''  int getX();'',
                             js ''  void setX(int x);'', js ''private:'', js ''  int m_x;'',
                             js ''};'']\<rparr>
       None"

text \<open>
  A class without a public section, with the words \<open>public:\<close> in a comment, in the
  document
  \<^verbatim>\<open>class A {\<close>, \<^verbatim>\<open>// public:\<close>, \<^verbatim>\<open>int f();\<close>, \<^verbatim>\<open>int g();\<close>, \<^verbatim>\<open>int x;\<close>, \<^verbatim>\<open>};\<close>
  with its three children.
\<close>

definition commentedClass :: CSymbol where
  "commentedClass =
     newCSymbolOfDocumentSymbol
       (DocumentSymbol (js ''A'') [] ClassKind 1 (rangeOf 0 0 5 1) (rangeOf 0 6 0 7)
          [DocumentSymbol (js ''f()'') (js ''declaration'') MethodKind 2
             (rangeOf 2 0 2 7) (rangeOf 2 4 2 5) [],
           DocumentSymbol (js ''g()'') (js ''declaration'') MethodKind 3
             (rangeOf 3 0 3 7) (rangeOf 3 4 3 5) [],
           DocumentSymbol (js ''x'') [] FieldKind 4 (rangeOf 4 0 4 5) (rangeOf 4 4 4 5) []])
       \<lparr>TextDocument.uri = js ''/a.h'',
        content = joinLines [js ''class A {'', js ''// public:'', js ''int f();'', js ''int g();'',
                             js ''int x;'', js ''};'']\<rparr>
       None"

text \<open>
  The class of the scenario with a comment after \<^verbatim>\<open>public:\<close>, in the document
  \<^verbatim>\<open>class A {\<close>, \<^verbatim>\<open>public:\<close>, \<^verbatim>\<open>  // TODO: y\<close>, \<^verbatim>\<open>  int getX();\<close>, \<^verbatim>\<open>  void setX(int x);\<close>,
  \<^verbatim>\<open>private:\<close>, \<^verbatim>\<open>  int m_x;\<close>, \<^verbatim>\<open>};\<close>
  with its three children.
\<close>

definition todoClass :: CSymbol where
  "todoClass =
     newCSymbolOfDocumentSymbol
       (DocumentSymbol (js ''A'') [] ClassKind 1 (rangeOf 0 0 7 1) (rangeOf 0 6 0 7)
          [DocumentSymbol (js ''getX()'') (js ''declaration'') MethodKind 2
             (rangeOf 3 2 3 12) (rangeOf 3 6 3 10) [],
           DocumentSymbol (js ''setX(int)'') (js ''declaration'') MethodKind 3
             (rangeOf 4 2 4 18) (rangeOf 4 7 4 11) [],
           DocumentSymbol (js ''m_x'') [] FieldKind 4 (rangeOf 6 2 6 9) (rangeOf 6 6 6 9) []])
       \<lparr>TextDocument.uri = js ''/a.h'',
        content = joinLines [js ''class A {'', js ''public:'', js ''  // TODO: y'',
                             js ''  int getX();'', js ''  void setX(int x);'', js ''private:'',
                             js ''  int m_x;'', js ''};'']\<rparr>
       None"

section \<open>Definitions in the workspace\<close>

text \<open>
  The definition provider of the editor answers with locations or with location links;
  a link is read as the location of its target. A file is named by the path of its uri.
\<close>

datatype DefinitionResult = IsLocation Location | IsLocationLink LocationLink

definition asLocation :: "DefinitionResult \<Rightarrow> Location" where
  "asLocation result =
     (case result of
        IsLocation l \<Rightarrow> l
      | IsLocationLink k \<Rightarrow> \<lparr>Location.uri = targetUri k, Location.range' = targetRange k\<rparr>)"

text \<open>\<open>s.includes(t)\<close>: \<open>t\<close> occurs in \<open>s\<close> as a substring.\<close>

fun includes' :: "jsstring \<Rightarrow> jsstring \<Rightarrow> bool" where
  "includes' [] t = (t = [])"
| "includes' (c # cs) t = (take (length t) (c # cs) = t \<or> includes' cs t)"

text \<open>
  The test that the loop of \<open>findDefinitionInWorkspace\<close> makes of one location.
  \<open>workspaceFolders\<close> is \<open>None\<close> when no workspace is open; a folder is given by its path.
\<close>

definition accepted :: "Position \<Rightarrow> jsstring \<Rightarrow> jsstring list option \<Rightarrow> Location \<Rightarrow> bool" where
  "accepted position u workspaceFolders location =
     (if Location.uri location = u \<and> \<not> contains (Location.range' location) position then True
      else if Location.uri location \<noteq> u \<and> workspaceFolders \<noteq> None
           then list_ex (\<lambda>folder. includes' (Location.uri location) folder) (the workspaceFolders)
           else False)"

fun firstAccepted ::
  "Position \<Rightarrow> jsstring \<Rightarrow> jsstring list option \<Rightarrow> DefinitionResult list \<Rightarrow> Location option" where
  "firstAccepted position u workspaceFolders [] = None"
| "firstAccepted position u workspaceFolders (result # results) =
     (let location = asLocation result
      in if accepted position u workspaceFolders location then Some location
         else firstAccepted position u workspaceFolders results)"

text \<open>
  \<open>definitionResults\<close> is the answer of the command \<open>vscode.executeDefinitionProvider\<close>
  for the uri and the position, \<open>None\<close> when the command answers nothing.
\<close>

definition findDefinitionInWorkspace ::
  "Position \<Rightarrow> jsstring \<Rightarrow> DefinitionResult list option \<Rightarrow> jsstring list option \<Rightarrow> Location option" where
  "findDefinitionInWorkspace position u definitionResults workspaceFolders =
     (case definitionResults of
        None \<Rightarrow> None
      | Some results \<Rightarrow> firstAccepted position u workspaceFolders results)"

text \<open>
  The selection policy in the words of the spec, to compare the function with: the first
  candidate of the same file whose range does not contain the position; otherwise the
  first candidate under an open workspace root; otherwise none.
\<close>

definition sameFileElsewhere :: "Position \<Rightarrow> jsstring \<Rightarrow> Location \<Rightarrow> bool" where
  "sameFileElsewhere position u location =
     (Location.uri location = u \<and> \<not> contains (Location.range' location) position)"

definition underWorkspaceRoot :: "jsstring list option \<Rightarrow> Location \<Rightarrow> bool" where
  "underWorkspaceRoot workspaceFolders location =
     (case workspaceFolders of
        None \<Rightarrow> False
      | Some folders \<Rightarrow> list_ex (\<lambda>folder. includes' (Location.uri location) folder) folders)"

definition specSelectionPolicy ::
  "Position \<Rightarrow> jsstring \<Rightarrow> DefinitionResult list \<Rightarrow> jsstring list option \<Rightarrow> Location option" where
  "specSelectionPolicy position u results workspaceFolders =
     (case find (sameFileElsewhere position u) (map asLocation results) of
        Some location \<Rightarrow> Some location
      | None \<Rightarrow> find (underWorkspaceRoot workspaceFolders) (map asLocation results))"

text \<open>A range on one line, for the examples.\<close>

definition lineRange :: "nat \<Rightarrow> Range" where
  "lineRange n = \<lparr>start = \<lparr>line = n, character = 0\<rparr>, end' = \<lparr>line = n, character = 5\<rparr>\<rparr>"

section \<open>Source files\<close>

text \<open>
  \<open>documentSymbols\<close> is the answer of the command \<open>vscode.executeDocumentSymbolProvider\<close>
  for the file, \<open>None\<close> when the command answers nothing. The function returns the file
  with its \<open>symbols\<close> property updated, and the symbols.
\<close>

definition executeSourceSymbolProvider ::
  "SourceFile \<Rightarrow> DocumentSymbol list option \<Rightarrow> SourceFile \<times> SourceSymbol list" where
  "executeSourceSymbolProvider this documentSymbols =
     (case documentSymbols of
        None \<Rightarrow> (this, [])
      | Some ds \<Rightarrow>
          (let sorted = arraySort compareStart ds;
               syms = map (\<lambda>newSymbol. newSourceSymbol newSymbol (SourceFile.uri this) None) sorted
           in (this\<lparr>symbols := Some syms\<rparr>, syms)))"

lemma size_SourceSymbol_children_less:
  "size_list size (SourceSymbol.children s) < size s"
  by (cases s) simp

function searchSymbolTree :: "Position \<Rightarrow> SourceSymbol list \<Rightarrow> SourceSymbol option" where
  "searchSymbolTree position [] = None"
| "searchSymbolTree position (sourceSymbol # sourceSymbols) =
     (if \<not> contains (SourceSymbol.range' sourceSymbol) position
      then searchSymbolTree position sourceSymbols
      else if SourceSymbol.children sourceSymbol = [] then Some sourceSymbol
      else searchSymbolTree position (SourceSymbol.children sourceSymbol))"
  by pat_completeness auto
termination
  by (relation "measure (\<lambda>(position, sourceSymbols). size_list size sourceSymbols)")
     (auto simp: size_SourceSymbol_children_less less_SucI trans_less_add1)

text \<open>\<open>SourceFile.getSymbol\<close>: the file with its symbols, and the symbol found.\<close>

definition getSymbol ::
  "SourceFile \<Rightarrow> DocumentSymbol list option \<Rightarrow> Position \<Rightarrow> SourceFile \<times> SourceSymbol option" where
  "getSymbol this documentSymbols position =
     (let this = (if symbols this = None
                  then (let (this, syms) = executeSourceSymbolProvider this documentSymbols
                        in this\<lparr>symbols := Some syms\<rparr>)
                  else this)
      in (this, searchSymbolTree position (the (symbols this))))"

text \<open>
  The symbols that the search visits: at each level the first symbol whose range
  contains the position, then the same among its children.
\<close>

function searchPath :: "Position \<Rightarrow> SourceSymbol list \<Rightarrow> SourceSymbol list" where
  "searchPath position [] = []"
| "searchPath position (sourceSymbol # sourceSymbols) =
     (if \<not> contains (SourceSymbol.range' sourceSymbol) position
      then searchPath position sourceSymbols
      else sourceSymbol # searchPath position (SourceSymbol.children sourceSymbol))"
  by pat_completeness auto
termination
  by (relation "measure (\<lambda>(position, sourceSymbols). size_list size sourceSymbols)")
     (auto simp: size_SourceSymbol_children_less less_SucI trans_less_add1)

text \<open>
  The order of the spec: the start of each child is not after the start of the next
  one, at every level of the tree.
\<close>

definition startsAscending :: "SourceSymbol list \<Rightarrow> bool" where
  "startsAscending cs =
     list_all (\<lambda>i. isBeforeOrEqual (start (SourceSymbol.range' (cs ! i)))
                                   (start (SourceSymbol.range' (cs ! Suc i))))
              [0..<length cs - 1]"

fun orderedTree :: "SourceSymbol \<Rightarrow> bool" where
  "orderedTree (SourceSymbol n d k rr r sr u p cs) = (startsAscending cs \<and> list_all orderedTree cs)"

text \<open>A method on one line with the given children, for the examples.\<close>

definition methodAt :: "nat \<Rightarrow> nat \<Rightarrow> DocumentSymbol list \<Rightarrow> DocumentSymbol" where
  "methodAt l ref cs = DocumentSymbol (js ''f'') [] MethodKind ref (lineRange l) (lineRange l) cs"

text \<open>\<open>a.start <= b.start\<close> for two ranges.\<close>

definition startLe :: "Range \<Rightarrow> Range \<Rightarrow> bool" where
  "startLe a b = isBeforeOrEqual (start a) (start b)"

definition noChildContains :: "Position \<Rightarrow> SourceSymbol \<Rightarrow> bool" where
  "noChildContains position s =
     list_all (\<lambda>c. \<not> contains (SourceSymbol.range' c) position) (SourceSymbol.children s)"

text \<open>
  Symbols for the examples: a class from line \<open>l\<close> to line \<open>m\<close> with the given children,
  and a file whose symbols have not been asked for yet.
\<close>

definition classAt :: "nat \<Rightarrow> nat \<Rightarrow> nat \<Rightarrow> DocumentSymbol list \<Rightarrow> DocumentSymbol" where
  "classAt l m ref cs =
     DocumentSymbol (js ''A'') [] ClassKind ref
       \<lparr>start = \<lparr>line = l, character = 0\<rparr>, end' = \<lparr>line = m, character = 1\<rparr>\<rparr> (lineRange l) cs"

definition freshFile :: SourceFile where
  "freshFile = \<lparr>SourceFile.uri = js ''/a.h'', symbols = None\<rparr>"

section \<open>Position of a new definition\<close>







section \<open>Masking of comments, quoted text and template arguments\<close>

text \<open>\<open>str.repeat(n)\<close>.\<close>

definition repeat :: "jsstring \<Rightarrow> nat \<Rightarrow> jsstring" where
  "repeat str n = concat (replicate n str)"

text \<open>\<open>.\<close> matches every code unit that is not a line terminator.\<close>

definition dot :: regex where
  "dot = Cls (\<lambda>u. \<not> isLineTerminator u)"

text \<open>
  The five patterns of \<open>maskUnimportantText\<close>. The code units 34, 39 and 92 are the
  double quote, the single quote and the backslash; 42 is \<open>*\<close> and 62 is \<open>>\<close>.
\<close>

definition re_blockComment :: regex where
  \<comment> \<open>\<^verbatim>\<open>/(?<=\/\*)(\*(?=\/)|[^*])*(?=\*\/)/g\<close>\<close>
  "re_blockComment =
     Seqs [Behind (js ''/*''),
           Star (Alt (Seq (Chr CHR ''*'') (Ahead (Chr CHR ''/''))) (Cls (\<lambda>u. u \<noteq> 42))),
           Ahead (Lit (js ''*/''))]"

definition re_lineComment :: regex where
  \<comment> \<open>\<^verbatim>\<open>/(?<=\/\/).*/g\<close>\<close>
  "re_lineComment = Seqs [Behind (js ''//''), Star dot]"

definition re_doubleQuoted :: regex where
  \<comment> \<open>\<^verbatim>\<open>/(?<=").*(?=")(?<!\\)/g\<close>\<close>
  "re_doubleQuoted = Seqs [Behind [34], Star dot, Ahead (Lit [34]), NotBehind [92]]"

definition re_singleQuoted :: regex where
  \<comment> \<open>\<^verbatim>\<open>/(?<=').*(?=')(?<!\\)/g\<close>\<close>
  "re_singleQuoted = Seqs [Behind [39], Star dot, Ahead (Lit [39]), NotBehind [92]]"

definition re_templateArguments :: regex where
  \<comment> \<open>\<^verbatim>\<open>/(?<=<)(>(?=>)|[^>])*(?=>)/g\<close>\<close>
  "re_templateArguments =
     Seqs [Behind (js ''<''),
           Star (Alt (Seq (Chr CHR ''>'') (Ahead (Chr CHR ''>''))) (Cls (\<lambda>u. u \<noteq> 62))),
           Ahead (Chr CHR ''>'')]"

definition maskUnimportantText :: "jsstring \<Rightarrow> jsstring \<Rightarrow> jsstring" where
  "maskUnimportantText source maskChar =
     (let replacer = (\<lambda>match. repeat maskChar (length match));
          source = replaceAll re_blockComment replacer source;
          source = replaceAll re_lineComment replacer source;
          source = replaceAll re_doubleQuoted replacer source;
          source = replaceAll re_singleQuoted replacer source;
          source = replaceAll re_templateArguments replacer source
      in source)"

text \<open>The default value of the parameter \<open>maskChar\<close> is one space.\<close>

definition maskUnimportantTextDefault :: "jsstring \<Rightarrow> jsstring" where
  "maskUnimportantTextDefault source = maskUnimportantText source (js '' '')"

text \<open>
  Where the masked characters lie. \<open>endsAt s w i\<close>: the string \<open>w\<close> occurs in \<open>s\<close> and ends
  just before position \<open>i\<close>; \<open>startsAt s w j\<close>: it occurs in \<open>s\<close> from position \<open>j\<close> on.
  \<open>between s opener closer p\<close>: an occurrence of the opener ends at or before \<open>p\<close> and an
  occurrence of the closer starts after \<open>p\<close>.
\<close>

definition endsAt :: "jsstring \<Rightarrow> jsstring \<Rightarrow> nat \<Rightarrow> bool" where
  "endsAt s w i = (length w \<le> i \<and> take (length w) (drop (i - length w) s) = w)"

definition startsAt :: "jsstring \<Rightarrow> jsstring \<Rightarrow> nat \<Rightarrow> bool" where
  "startsAt s w j = (take (length w) (drop j s) = w)"

definition afterOpener :: "jsstring \<Rightarrow> jsstring \<Rightarrow> nat \<Rightarrow> bool" where
  "afterOpener s opener p = list_ex (endsAt s opener) [0..<Suc p]"

definition between :: "jsstring \<Rightarrow> jsstring \<Rightarrow> jsstring \<Rightarrow> nat \<Rightarrow> bool" where
  "between s opener closer p =
     (afterOpener s opener p \<and> list_ex (startsAt s closer) [Suc p..<Suc (length s)])"

definition maskable :: "jsstring \<Rightarrow> nat \<Rightarrow> bool" where
  "maskable s p =
     (between s (js ''/*'') (js ''*/'') p
      \<or> afterOpener s (js ''//'') p
      \<or> between s [34] [34] p
      \<or> between s [39] [39] p
      \<or> between s (js ''<'') (js ''>'') p)"

text \<open>\<open>covered r s k\<close>: position \<open>k\<close> lies inside a match of \<open>r\<close> in \<open>s\<close>.\<close>

definition covered :: "regex \<Rightarrow> jsstring \<Rightarrow> nat \<Rightarrow> bool" where
  "covered r s k = (\<exists>i j. i \<le> k \<and> k < j \<and> j \<le> length s \<and> matchAt r s i = Some j)"

text \<open>
  What one pass of the masking keeps: the length, and at each position either the
  character of the source or a space at a maskable position.
\<close>

definition maskedFrom :: "jsstring \<Rightarrow> jsstring \<Rightarrow> bool" where
  "maskedFrom s t =
     (length t = length s \<and> (\<forall>p<length s. t ! p = s ! p \<or> (t ! p = 32 \<and> maskable s p)))"

text \<open>
  The regions of the spec, to compare the function with: a scan of the text that marks
  the characters inside a block comment, inside a line comment, between the quotes of a
  string or character literal (a backslash escapes the next character), and between
  the angle brackets of a template-argument list of the first level, nested lists
  included. The delimiters themselves are not marked.
\<close>

datatype Region = InCode | InBlockComment | InLineComment | InString | InCharacter | InTemplate nat

fun specInterior :: "Region \<Rightarrow> jsstring \<Rightarrow> bool list" where
  "specInterior region [] = []"
| "specInterior InCode [c] = [False]"
| "specInterior InCode (c # d # cs) =
     (if c = 47 \<and> d = 42 then False # False # specInterior InBlockComment cs
      else if c = 47 \<and> d = 47 then False # False # specInterior InLineComment cs
      else if c = 34 then False # specInterior InString (d # cs)
      else if c = 39 then False # specInterior InCharacter (d # cs)
      else if c = 60 then False # specInterior (InTemplate 0) (d # cs)
      else False # specInterior InCode (d # cs))"
| "specInterior InBlockComment [c] = [True]"
| "specInterior InBlockComment (c # d # cs) =
     (if c = 42 \<and> d = 47 then False # False # specInterior InCode cs
      else True # specInterior InBlockComment (d # cs))"
| "specInterior InLineComment (c # cs) =
     (if isLineTerminator c then False # specInterior InCode cs
      else True # specInterior InLineComment cs)"
| "specInterior InString [c] = [c \<noteq> 34]"
| "specInterior InString (c # d # cs) =
     (if c = 92 then True # True # specInterior InString cs
      else if c = 34 then False # specInterior InCode (d # cs)
      else True # specInterior InString (d # cs))"
| "specInterior InCharacter [c] = [c \<noteq> 39]"
| "specInterior InCharacter (c # d # cs) =
     (if c = 92 then True # True # specInterior InCharacter cs
      else if c = 39 then False # specInterior InCode (d # cs)
      else True # specInterior InCharacter (d # cs))"
| "specInterior (InTemplate n) (c # cs) =
     (if c = 60 then True # specInterior (InTemplate (Suc n)) cs
      else if c = 62 then (if n = 0 then False # specInterior InCode cs
                           else True # specInterior (InTemplate (n - 1)) cs)
      else True # specInterior (InTemplate n) cs)"

text \<open>The text \<^verbatim>\<open>"a"x"b"\<close>: two string literals with an \<open>x\<close> between them.\<close>

definition twoLiterals :: jsstring where
  "twoLiterals = [34] @ js ''a'' @ [34] @ js ''x'' @ [34] @ js ''b'' @ [34]"

section \<open>Source documents\<close>

definition lineAt :: "TextDocument \<Rightarrow> nat \<Rightarrow> TextLine option" where
  "lineAt d i =
     (let ls = splitLines (content d)
      in if i < length ls
         then Some \<lparr>lineText = ls ! i,
                    TextLine.range' = \<lparr>start = \<lparr>line = i, character = 0\<rparr>,
                              end' = \<lparr>line = i, character = length (ls ! i)\<rparr>\<rparr>,
                    isEmptyOrWhitespace = list_all isWhiteSpace (ls ! i)\<rparr>
         else None)"

text \<open>\<open>new Range(a, b)\<close> puts the earlier position first.\<close>

definition newRange :: "Position \<Rightarrow> Position \<Rightarrow> Range" where
  "newRange a b = (if isBefore a b then \<lparr>start = a, end' = b\<rparr> else \<lparr>start = b, end' = a\<rparr>)"

text \<open>\<open>str.trim()\<close>.\<close>

definition trim :: "jsstring \<Rightarrow> jsstring" where
  "trim str = rev (dropWhile isWhiteSpace (rev (dropWhile isWhiteSpace str)))"

text \<open>
  \<open>a > b\<close> for two objects: both are converted to primitive values and these are
  compared. The class \<open>Range\<close> of the editor has neither \<open>valueOf\<close> nor \<open>toString\<close> of its
  own, so each range is converted by \<open>Object.prototype.toString\<close>, and the two strings
  are compared by their code units.
\<close>

definition toPrimitive :: "Range \<Rightarrow> jsstring" where
  "toPrimitive r = js ''[object Object]''"

fun stringLess :: "jsstring \<Rightarrow> jsstring \<Rightarrow> bool" where
  "stringLess [] [] = False"
| "stringLess [] (d # ds) = True"
| "stringLess (c # cs) [] = False"
| "stringLess (c # cs) (d # ds) = (c < d \<or> (c = d \<and> stringLess cs ds))"

definition greaterThan' :: "Range \<Rightarrow> Range \<Rightarrow> bool" where
  "greaterThan' a b = stringLess (toPrimitive b) (toPrimitive a)"

subsection \<open>Position of a new include\<close>

definition largestBlock :: "TextLine \<Rightarrow> Position \<Rightarrow> Range option \<Rightarrow> Range" where
  "largestBlock l startPos largest =
     (let r = newRange startPos (start (TextLine.range' l))
      in if largest = None \<or> greaterThan' r (the largest) then r else the largest)"

definition re_include :: regex where
  \<comment> \<open>\<^verbatim>\<open>/^#include\s*(<.+>)|(".+")$/\<close>\<close>
  "re_include =
     Alt (Seqs [Bos, Lit (js ''#include''), Star whiteSpace, Lit (js ''<''), Plus dot, Lit (js ''>'')])
         (Seqs [Lit [34], Plus dot, Lit [34], Eos])"

definition re_angled :: regex where
  \<comment> \<open>\<^verbatim>\<open>/<.+>/\<close>\<close>
  "re_angled = Seqs [Lit (js ''<''), Plus dot, Lit (js ''>'')]"

definition re_quoted :: regex where
  \<comment> \<open>\<^verbatim>\<open>/".+"/\<close>\<close>
  "re_quoted = Seqs [Lit [34], Plus dot, Lit [34]]"

text \<open>The four variables of the loop over the lines, and one turn of the loop.\<close>

record IncludeScan =
  systemIncludeStart :: "Position option"
  projectIncludeStart :: "Position option"
  largestSystemIncludeBlock :: "Range option"
  largestProjectIncludeBlock :: "Range option"

definition closeSystemBlock :: "TextLine \<Rightarrow> IncludeScan \<Rightarrow> IncludeScan" where
  "closeSystemBlock l v =
     v\<lparr>largestSystemIncludeBlock :=
         Some (largestBlock l (the (systemIncludeStart v)) (largestSystemIncludeBlock v)),
       systemIncludeStart := None\<rparr>"

definition closeProjectBlock :: "TextLine \<Rightarrow> IncludeScan \<Rightarrow> IncludeScan" where
  "closeProjectBlock l v =
     v\<lparr>largestProjectIncludeBlock :=
         Some (largestBlock l (the (projectIncludeStart v)) (largestProjectIncludeBlock v)),
       projectIncludeStart := None\<rparr>"

definition scanLine :: "TextLine \<Rightarrow> IncludeScan \<Rightarrow> IncludeScan" where
  "scanLine l v =
     (if \<not> test re_include (trim (lineText l))
      then (if systemIncludeStart v \<noteq> None then closeSystemBlock l v
            else if projectIncludeStart v \<noteq> None then closeProjectBlock l v
            else v)
      else if test re_angled (lineText l)
      then (let v = (if systemIncludeStart v = None
                     then v\<lparr>systemIncludeStart := Some (start (TextLine.range' l))\<rparr> else v)
            in if projectIncludeStart v \<noteq> None then closeProjectBlock l v else v)
      else if test re_quoted (lineText l)
      then (let v = (if projectIncludeStart v = None
                     then v\<lparr>projectIncludeStart := Some (start (TextLine.range' l))\<rparr> else v)
            in if systemIncludeStart v \<noteq> None then closeSystemBlock l v else v)
      else v)"

text \<open>The loop \<open>for (i = from; i < lineCount; ++i)\<close>, with \<open>n\<close> lines still to visit.\<close>

fun scanLines :: "TextDocument \<Rightarrow> nat \<Rightarrow> nat \<Rightarrow> IncludeScan \<Rightarrow> IncludeScan" where
  "scanLines d i 0 v = v"
| "scanLines d i (Suc n) v =
     (case lineAt d i of
        None \<Rightarrow> v
      | Some l \<Rightarrow> scanLines d (Suc i) n (scanLine l v))"

text \<open>
  The loop \<open>for (i = from; i >= 0; --i)\<close> of the fallback, started with \<open>Suc from\<close>: the end
  of the last line at or before \<open>from\<close> that is not blank. The outer \<open>None\<close> is the
  exception of \<open>lineAt\<close>.
\<close>

fun lastNonBlankLine :: "TextDocument \<Rightarrow> nat \<Rightarrow> Position option option" where
  "lastNonBlankLine d 0 = Some None"
| "lastNonBlankLine d (Suc i) =
     (case lineAt d i of
        None \<Rightarrow> None
      | Some l \<Rightarrow> if \<not> isEmptyOrWhitespace l then Some (Some (end' (TextLine.range' l)))
                  else lastNonBlankLine d i)"

text \<open>
  \<open>findPositionForNewInclude\<close>: the positions for a system include and for a project
  include; \<open>None\<close> is the exception of \<open>lineAt\<close>. \<open>documentSymbols\<close> is the answer of the
  symbol provider, which is asked when the document has no symbols yet.
\<close>

definition findPositionForNewInclude ::
  "SourceDocument \<Rightarrow> DocumentSymbol list option \<Rightarrow> (Position \<times> Position) option" where
  "findPositionForNewInclude this documentSymbols =
     (let v = scanLines (SourceDocument.document this) 0 (lineCount (SourceDocument.document this))
                \<lparr>systemIncludeStart = None, projectIncludeStart = None,
                 largestSystemIncludeBlock = None, largestProjectIncludeBlock = None\<rparr>;
          systemIncludePos = map_option end' (largestSystemIncludeBlock v);
          projectIncludePos =
            (if largestSystemIncludeBlock v \<noteq> None \<and> largestProjectIncludeBlock v = None
             then systemIncludePos else None);
          projectIncludePos =
            (if largestProjectIncludeBlock v \<noteq> None
             then map_option end' (largestProjectIncludeBlock v) else projectIncludePos);
          systemIncludePos =
            (if largestProjectIncludeBlock v \<noteq> None \<and> largestSystemIncludeBlock v = None
             then projectIncludePos else systemIncludePos)
      in if systemIncludePos \<noteq> None \<and> projectIncludePos \<noteq> None
         then Some (the systemIncludePos, the projectIncludePos)
         else
           (let syms = (case symbols this of
                          None \<Rightarrow> snd (executeSourceSymbolProvider (SourceFile.truncate this) documentSymbols)
                        | Some syms \<Rightarrow> syms);
                startLineNum = (if syms = [] then lineCount (SourceDocument.document this) - 1
                                else line (start (SourceSymbol.range' (syms ! 0))))
            in case lastNonBlankLine (SourceDocument.document this) (Suc startLineNum) of
                 None \<Rightarrow> None
               | Some None \<Rightarrow> Some (\<lparr>line = 0, character = 0\<rparr>, \<lparr>line = 0, character = 0\<rparr>)
               | Some (Some p) \<Rightarrow> Some (p, p)))"

text \<open>A document for the examples, given by its lines.\<close>

definition documentOf :: "jsstring list \<Rightarrow> SourceDocument" where
  "documentOf ls =
     \<lparr>SourceFile.uri = js ''/a.h'', symbols = None,
      SourceDocument.document = \<lparr>TextDocument.uri = js ''/a.h'', content = joinLines ls\<rparr>\<rparr>"

section \<open>Properties\<close>

text \<open>
  The equations that evaluate the regular expressions and the masking on a given
  string, for the simplifier.
\<close>

lemmas regex_eval = matchAt_def exec.simps replaceFrom.simps replaceAll_def replaceFirst_def
  test_def Seqs_def Chr_def Plus_def ends.simps(5) substring_def js_def wordAt_def
  isDigit_def isWordChar_def isLineTerminator_def isWhiteSpace_def dot_def whiteSpace_def

lemmas mask_eval = maskUnimportantTextDefault_def maskUnimportantText_def Let_def repeat_def
  re_blockComment_def re_lineComment_def re_doubleQuoted_def re_singleQuoted_def
  re_templateArguments_def

subsection \<open>Accessor names\<close>

lemma truthy_None [simp]: "\<not> truthy None"
  by (simp add: truthy_def)

lemma length_firstCharToUpper [simp]: "length (firstCharToUpper str) = length str"
  by (simp add: firstCharToUpper_def split: list.splits)

lemma baseNameOf_m_count: "baseNameOf (js ''m_count'') = js ''count''"
  by code_simp

lemma baseNameOf_count: "baseNameOf (js ''count'') = js ''count''"
  by code_simp

text \<open>
  C4. Called without an argument on a member variable, \<open>getterName\<close> returns
  \<open>"get" + firstCharToUpper(baseName())\<close> exactly when \<open>baseName()\<close> equals the identifier,
  and \<open>baseName()\<close> itself otherwise; on a symbol that is not a member variable it
  returns the empty string.
\<close>

theorem getterName_by_baseName:
  "(isMemberVariable this \<longrightarrow>
      ((getterName this None = js ''get'' @ firstCharToUpper (baseName this)) = (baseName this = id' this))
      \<and> (baseName this \<noteq> id' this \<longrightarrow> getterName this None = baseName this))
   \<and> (\<not> isMemberVariable this \<longrightarrow> getterName this None = [])"
proof -
  have neq: "js ''get'' @ firstCharToUpper b \<noteq> b" for b
  proof
    assume "js ''get'' @ firstCharToUpper b = b"
    then have "length (js ''get'' @ firstCharToUpper b) = length b" by simp
    then show False by (simp add: js_def)
  qed
  show ?thesis
    using neq [of "baseName this"] by (auto simp: getterName_def Let_def)
qed

theorem getterName_by_baseName_witness:
  "isMemberVariable (fieldNamed (js ''count''))
   \<and> baseName (fieldNamed (js ''count'')) = id' (fieldNamed (js ''count''))
   \<and> getterName (fieldNamed (js ''count'')) None = js ''getCount''
   \<and> isMemberVariable (fieldNamed (js ''m_count''))
   \<and> baseName (fieldNamed (js ''m_count'')) \<noteq> id' (fieldNamed (js ''m_count''))
   \<and> getterName (fieldNamed (js ''m_count'')) None = js ''count''
   \<and> \<not> isMemberVariable (methodNamed (js ''count''))
   \<and> getterName (methodNamed (js ''count'')) None = []"
proof -
  have m1: "isMemberVariable (fieldNamed (js ''count''))" by code_simp
  have b1: "baseName (fieldNamed (js ''count'')) = id' (fieldNamed (js ''count''))" by code_simp
  have v1: "js ''get'' @ firstCharToUpper (baseName (fieldNamed (js ''count''))) = js ''getCount''"
    by code_simp
  have m2: "isMemberVariable (fieldNamed (js ''m_count''))" by code_simp
  have b2: "baseName (fieldNamed (js ''m_count'')) \<noteq> id' (fieldNamed (js ''m_count''))" by code_simp
  have v2: "baseName (fieldNamed (js ''m_count'')) = js ''count''" by code_simp
  have m3: "\<not> isMemberVariable (methodNamed (js ''count''))" by code_simp
  show ?thesis
    using getterName_by_baseName [of "fieldNamed (js ''count'')"]
      getterName_by_baseName [of "fieldNamed (js ''m_count'')"]
      getterName_by_baseName [of "methodNamed (js ''count'')"]
      m1 b1 v1 m2 b2 v2 m3
    by simp
qed

text \<open>
  C3, as the spec states it, fails: for the member variable \<open>m_count\<close> the getter name is
  not \<open>getCount\<close>.
\<close>

theorem getterName_m_count_counterexample:
  "isMemberVariable (fieldNamed (js ''m_count''))
   \<and> id' (fieldNamed (js ''m_count'')) = js ''m_count''
   \<and> getterName (fieldNamed (js ''m_count'')) None \<noteq> js ''getCount''"
  by code_simp

text \<open>
  C3, amended. For a member variable whose identifier is \<open>m_count\<close>, \<open>getterName()\<close>
  returns \<open>count\<close> and \<open>setterName()\<close> returns \<open>setCount\<close>; for a member variable whose
  identifier is \<open>count\<close>, \<open>getterName()\<close> returns \<open>getCount\<close> and \<open>setterName()\<close> returns
  \<open>setCount\<close>.
\<close>

theorem accessor_names_of_m_count_and_count:
  "isMemberVariable this \<Longrightarrow>
     (id' this = js ''m_count'' \<longrightarrow>
        getterName this None = js ''count'' \<and> setterName this None = js ''setCount'')
     \<and> (id' this = js ''count'' \<longrightarrow>
        getterName this None = js ''getCount'' \<and> setterName this None = js ''setCount'')"
proof -
  assume mv: "isMemberVariable this"
  have a: "js ''count'' \<noteq> js ''m_count''" by (simp add: js_def)
  have b: "js ''get'' @ firstCharToUpper (js ''count'') = js ''getCount''" by code_simp
  have c: "js ''set'' @ firstCharToUpper (js ''count'') = js ''setCount''" by code_simp
  show ?thesis
    using mv a b c
    by (simp add: getterName_def setterName_def baseName_def baseNameOf_m_count baseNameOf_count)
qed

theorem accessor_names_of_m_count_and_count_witness:
  "isMemberVariable (fieldNamed (js ''m_count''))
   \<and> id' (fieldNamed (js ''m_count'')) = js ''m_count''
   \<and> getterName (fieldNamed (js ''m_count'')) None = js ''count''
   \<and> setterName (fieldNamed (js ''m_count'')) None = js ''setCount''
   \<and> isMemberVariable (fieldNamed (js ''count''))
   \<and> id' (fieldNamed (js ''count'')) = js ''count''
   \<and> getterName (fieldNamed (js ''count'')) None = js ''getCount''
   \<and> setterName (fieldNamed (js ''count'')) None = js ''setCount''"
proof -
  have m1: "isMemberVariable (fieldNamed (js ''m_count''))" by code_simp
  have i1: "id' (fieldNamed (js ''m_count'')) = js ''m_count''" by code_simp
  have m2: "isMemberVariable (fieldNamed (js ''count''))" by code_simp
  have i2: "id' (fieldNamed (js ''count'')) = js ''count''" by code_simp
  show ?thesis
    using accessor_names_of_m_count_and_count [OF m1] accessor_names_of_m_count_and_count [OF m2]
      m1 i1 m2 i2
    by simp
qed

subsection \<open>Selection of a definition\<close>

lemma firstAccepted_find:
  "firstAccepted position u workspaceFolders results =
     find (accepted position u workspaceFolders) (map asLocation results)"
  by (induction results) (simp_all add: Let_def)

text \<open>
  C2, as the spec states it, fails: a candidate of another file under a workspace root
  that comes first in the list is returned although a candidate of the same file, away
  from the position, follows it.
\<close>

theorem findDefinitionInWorkspace_list_order_counterexample:
  "findDefinitionInWorkspace \<lparr>line = 0, character = 0\<rparr> (js ''/ws/a.h'')
     (Some [IsLocation \<lparr>Location.uri = js ''/ws/a.cpp'', Location.range' = lineRange 3\<rparr>,
            IsLocation \<lparr>Location.uri = js ''/ws/a.h'', Location.range' = lineRange 7\<rparr>])
     (Some [js ''/ws''])
   = Some \<lparr>Location.uri = js ''/ws/a.cpp'', Location.range' = lineRange 3\<rparr>
   \<and> specSelectionPolicy \<lparr>line = 0, character = 0\<rparr> (js ''/ws/a.h'')
     [IsLocation \<lparr>Location.uri = js ''/ws/a.cpp'', Location.range' = lineRange 3\<rparr>,
      IsLocation \<lparr>Location.uri = js ''/ws/a.h'', Location.range' = lineRange 7\<rparr>]
     (Some [js ''/ws''])
   = Some \<lparr>Location.uri = js ''/ws/a.h'', Location.range' = lineRange 7\<rparr>"
  by code_simp

text \<open>
  C2, amended. When the provider returns a list of candidates, the result is the first
  candidate, in the order of the list, that is either in the same file with a range that
  does not contain the position, or in another file whose path contains the path of an
  open workspace root; it is no result when the list has no such candidate.
\<close>

theorem findDefinitionInWorkspace_first_accepted:
  "findDefinitionInWorkspace position u (Some results) workspaceFolders =
     find (\<lambda>location.
             sameFileElsewhere position u location
             \<or> (Location.uri location \<noteq> u \<and> underWorkspaceRoot workspaceFolders location))
          (map asLocation results)"
proof -
  have "accepted position u workspaceFolders =
        (\<lambda>location. sameFileElsewhere position u location
             \<or> (Location.uri location \<noteq> u \<and> underWorkspaceRoot workspaceFolders location))"
    by (auto simp: accepted_def sameFileElsewhere_def underWorkspaceRoot_def fun_eq_iff
        split: option.splits)
  then show ?thesis
    by (simp add: findDefinitionInWorkspace_def firstAccepted_find)
qed

theorem findDefinitionInWorkspace_first_accepted_witness:
  "findDefinitionInWorkspace \<lparr>line = 0, character = 0\<rparr> (js ''/ws/a.h'')
     (Some [IsLocation \<lparr>Location.uri = js ''/ws/a.h'', Location.range' = lineRange 0\<rparr>,
            IsLocationLink \<lparr>targetUri = js ''/other/a.cpp'', targetRange = lineRange 2\<rparr>,
            IsLocation \<lparr>Location.uri = js ''/ws/a.cpp'', Location.range' = lineRange 3\<rparr>,
            IsLocation \<lparr>Location.uri = js ''/ws/a.h'', Location.range' = lineRange 7\<rparr>])
     (Some [js ''/ws''])
   = Some \<lparr>Location.uri = js ''/ws/a.cpp'', Location.range' = lineRange 3\<rparr>"
  by (simp only: findDefinitionInWorkspace_first_accepted) code_simp

subsection \<open>Order of the children\<close>

lemma startLe_total: "startLe a b \<or> startLe b a"
  by (auto simp: startLe_def isBeforeOrEqual_def isBefore_def)

lemma startLe_trans: "startLe a b \<Longrightarrow> startLe b c \<Longrightarrow> startLe a c"
  by (auto simp: startLe_def isBeforeOrEqual_def isBefore_def)

lemma compareStart_pos:
  "(0 < compareStart x y) = (\<not> startLe (DocumentSymbol.range' x) (DocumentSymbol.range' y))"
  by (simp add: compareStart_def startLe_def isBeforeOrEqual_def isAfter_def)

lemma sorted_insertBy:
  "sorted_wrt (\<lambda>a b. startLe (DocumentSymbol.range' a) (DocumentSymbol.range' b)) xs \<Longrightarrow>
   sorted_wrt (\<lambda>a b. startLe (DocumentSymbol.range' a) (DocumentSymbol.range' b))
     (insertBy compareStart x xs)"
proof (induction xs)
  case Nil
  then show ?case by simp
next
  case (Cons y ys)
  show ?case
  proof (cases "0 < compareStart x y")
    case True
    then have "startLe (DocumentSymbol.range' y) (DocumentSymbol.range' x)"
      using startLe_total compareStart_pos by blast
    with Cons True show ?thesis by (auto simp: set_insertBy)
  next
    case False
    then have "startLe (DocumentSymbol.range' x) (DocumentSymbol.range' y)"
      by (simp add: compareStart_pos)
    with Cons False show ?thesis by (auto intro: startLe_trans)
  qed
qed

lemma sorted_foldl_insertBy:
  "sorted_wrt (\<lambda>a b. startLe (DocumentSymbol.range' a) (DocumentSymbol.range' b)) ys \<Longrightarrow>
   sorted_wrt (\<lambda>a b. startLe (DocumentSymbol.range' a) (DocumentSymbol.range' b))
     (foldl (\<lambda>placed x. insertBy compareStart x placed) ys xs)"
  by (induction xs arbitrary: ys) (simp_all add: sorted_insertBy)

lemma sorted_arraySort:
  "sorted_wrt (\<lambda>a b. startLe (DocumentSymbol.range' a) (DocumentSymbol.range' b))
     (arraySort compareStart xs)"
  by (simp add: arraySort_def sorted_foldl_insertBy)

lemma range_newSourceSymbol [simp]:
  "SourceSymbol.range' (newSourceSymbol d u p) = DocumentSymbol.range' d"
  by (cases d) (simp add: newSourceSymbol.simps Let_def)

lemma startsAscending_iff:
  "startsAscending cs =
     (\<forall>i. Suc i < length cs \<longrightarrow>
        startLe (SourceSymbol.range' (cs ! i)) (SourceSymbol.range' (cs ! Suc i)))"
  by (auto simp: startsAscending_def list_all_iff startLe_def)

lemma startsAscending_map_sorted:
  assumes "\<And>c. SourceSymbol.range' (f c) = DocumentSymbol.range' c"
  shows "startsAscending (map f (arraySort compareStart xs))"
  unfolding startsAscending_iff
proof (intro allI impI)
  fix i
  assume i: "Suc i < length (map f (arraySort compareStart xs))"
  then have "startLe (DocumentSymbol.range' (arraySort compareStart xs ! i))
                     (DocumentSymbol.range' (arraySort compareStart xs ! Suc i))"
    using sorted_wrt_nth_less [OF sorted_arraySort [of xs], of i "Suc i"] by simp
  with i show "startLe (SourceSymbol.range' (map f (arraySort compareStart xs) ! i))
                      (SourceSymbol.range' (map f (arraySort compareStart xs) ! Suc i))"
    by (simp add: assms)
qed

lemma orderedTree_newSourceSymbol: "orderedTree (newSourceSymbol d u p)"
proof (induction d u p rule: newSourceSymbol.induct)
  case (1 n d k rr r sr cs u p)
  have "startsAscending (map f (arraySort compareStart cs))"
    if "\<And>c. SourceSymbol.range' (f c) = DocumentSymbol.range' c" for f
    using that by (rule startsAscending_map_sorted)
  then show ?case
    using "1.IH"(2) by (simp add: newSourceSymbol.simps Let_def list_all_iff)
qed

lemma orderedTree_newCSymbol: "orderedTree (symbol (newCSymbol src doc par))"
  by (cases src) (simp add: newCSymbol.simps Let_def orderedTree_newSourceSymbol)

text \<open>
  C9. Every tree that the constructors build is ordered at every level: the children of
  a \<open>SourceSymbol\<close> and of a \<open>CSymbol\<close>, and the list of top-level symbols that
  \<open>executeSourceSymbolProvider\<close> builds, whatever the order in which the provider
  answers.
\<close>

theorem constructed_trees_ordered:
  "orderedTree (newSourceSymbol docSymbol u p)
   \<and> orderedTree (symbol (newCSymbol src doc par))
   \<and> orderedTree (symbol (newCSymbolOfDocumentSymbol docSymbol doc par))
   \<and> startsAscending (snd (executeSourceSymbolProvider file documentSymbols))
   \<and> list_all orderedTree (snd (executeSourceSymbolProvider file documentSymbols))"
proof -
  have a: "startsAscending (snd (executeSourceSymbolProvider file documentSymbols))"
  proof (cases documentSymbols)
    case None
    then show ?thesis by (simp add: executeSourceSymbolProvider_def startsAscending_def)
  next
    case (Some ds)
    then show ?thesis
      by (simp add: executeSourceSymbolProvider_def Let_def startsAscending_map_sorted)
  qed
  have b: "list_all orderedTree (snd (executeSourceSymbolProvider file documentSymbols))"
    by (cases documentSymbols)
       (simp_all add: executeSourceSymbolProvider_def Let_def list_all_iff orderedTree_newSourceSymbol)
  show ?thesis
    using a b
    by (simp add: orderedTree_newSourceSymbol orderedTree_newCSymbol newCSymbolOfDocumentSymbol_def)
qed


theorem constructed_trees_ordered_witness:
  "startsAscending (snd (executeSourceSymbolProvider \<lparr>SourceFile.uri = js ''/a.h'', symbols = None\<rparr>
      (Some [methodAt 4 1 [], methodAt 2 2 [methodAt 3 3 [], methodAt 2 4 []], methodAt 1 5 []])))
   \<and> list_all orderedTree (snd (executeSourceSymbolProvider \<lparr>SourceFile.uri = js ''/a.h'', symbols = None\<rparr>
      (Some [methodAt 4 1 [], methodAt 2 2 [methodAt 3 3 [], methodAt 2 4 []], methodAt 1 5 []])))
   \<and> map SourceSymbol.rangeRef (snd (executeSourceSymbolProvider \<lparr>SourceFile.uri = js ''/a.h'', symbols = None\<rparr>
      (Some [methodAt 4 1 [], methodAt 2 2 [methodAt 3 3 [], methodAt 2 4 []], methodAt 1 5 []])))
     = [5, 2, 1]"
proof -
  have "map SourceSymbol.rangeRef (snd (executeSourceSymbolProvider \<lparr>SourceFile.uri = js ''/a.h'', symbols = None\<rparr>
      (Some [methodAt 4 1 [], methodAt 2 2 [methodAt 3 3 [], methodAt 2 4 []], methodAt 1 5 []])))
     = [5, 2, 1]"
    by code_simp
  then show ?thesis
    using constructed_trees_ordered [of _ _ _ _ _ _ "\<lparr>SourceFile.uri = js ''/a.h'', symbols = None\<rparr>"
        "Some [methodAt 4 1 [], methodAt 2 2 [methodAt 3 3 [], methodAt 2 4 []], methodAt 1 5 []]"]
    by simp
qed

subsection \<open>Lookup of a symbol by position\<close>

lemma searchSymbolTree_childless:
  "searchSymbolTree position syms = Some r \<Longrightarrow> SourceSymbol.children r = []"
  by (induction position syms rule: searchSymbolTree.induct) (auto split: if_splits)

lemma searchSymbolTree_none_contains:
  "\<forall>c \<in> set cs. \<not> contains (SourceSymbol.range' c) position \<Longrightarrow>
   searchSymbolTree position cs = None"
  by (induction cs) auto

lemma searchPath_stops:
  "s \<in> set (searchPath position syms) \<Longrightarrow> SourceSymbol.children s \<noteq> [] \<Longrightarrow>
   \<forall>c \<in> set (SourceSymbol.children s). \<not> contains (SourceSymbol.range' c) position \<Longrightarrow>
   searchSymbolTree position syms = None"
proof (induction position syms rule: searchPath.induct)
  case (1 position)
  then show ?case by simp
next
  case (2 position sourceSymbol sourceSymbols)
  show ?case
  proof (cases "contains (SourceSymbol.range' sourceSymbol) position")
    case False
    with 2 show ?thesis by simp
  next
    case True
    show ?thesis
    proof (cases "s = sourceSymbol")
      case True
      with 2 \<open>contains (SourceSymbol.range' sourceSymbol) position\<close> show ?thesis
        by (simp add: searchSymbolTree_none_contains)
    next
      case False
      with 2 True have mem: "s \<in> set (searchPath position (SourceSymbol.children sourceSymbol))"
        by simp
      then have "SourceSymbol.children sourceSymbol \<noteq> []" by auto
      with 2 True mem show ?thesis by simp
    qed
  qed
qed

text \<open>
  C10, as stated, fails where the ranges of two siblings overlap: the second top-level
  symbol contains the position, has a child, and its child does not contain the
  position, yet \<open>getSymbol\<close> returns the first top-level symbol, which contains the
  position as well.
\<close>

theorem getSymbol_overlap_counterexample:
  "contains (SourceSymbol.range'
       (the (symbols (fst (getSymbol freshFile
          (Some [classAt 0 9 1 [], classAt 1 9 2 [methodAt 2 3 []]]) \<lparr>line = 5, character = 0\<rparr>))) ! 1))
     \<lparr>line = 5, character = 0\<rparr>
   \<and> SourceSymbol.children
       (the (symbols (fst (getSymbol freshFile
          (Some [classAt 0 9 1 [], classAt 1 9 2 [methodAt 2 3 []]]) \<lparr>line = 5, character = 0\<rparr>))) ! 1)
     \<noteq> []
   \<and> noChildContains \<lparr>line = 5, character = 0\<rparr>
       (the (symbols (fst (getSymbol freshFile
          (Some [classAt 0 9 1 [], classAt 1 9 2 [methodAt 2 3 []]]) \<lparr>line = 5, character = 0\<rparr>))) ! 1)
   \<and> snd (getSymbol freshFile
          (Some [classAt 0 9 1 [], classAt 1 9 2 [methodAt 2 3 []]]) \<lparr>line = 5, character = 0\<rparr>)
     \<noteq> None"
  by code_simp

text \<open>
  C10, amended. \<open>getSymbol\<close> never returns a symbol that has children; and when a symbol
  that the search visits (at each level from the top, the first symbol whose range
  contains the position) has children and no child's range contains the position,
  \<open>getSymbol\<close> returns no result.
\<close>

theorem getSymbol_never_a_parent:
  "(snd (getSymbol this documentSymbols position) = Some r \<longrightarrow> SourceSymbol.children r = [])
   \<and> (s \<in> set (searchPath position (the (symbols (fst (getSymbol this documentSymbols position)))))
          \<and> SourceSymbol.children s \<noteq> [] \<and> noChildContains position s
        \<longrightarrow> snd (getSymbol this documentSymbols position) = None)"
proof -
  obtain f where f: "fst (getSymbol this documentSymbols position) = f"
    and r: "snd (getSymbol this documentSymbols position) = searchSymbolTree position (the (symbols f))"
    by (simp add: getSymbol_def Let_def split_beta)
  show ?thesis
    unfolding f r noChildContains_def list_all_iff
    using searchSymbolTree_childless searchPath_stops by blast
qed

theorem getSymbol_never_a_parent_witness:
  "hd (the (symbols (fst (getSymbol freshFile
          (Some [classAt 1 9 2 [methodAt 2 3 [], methodAt 7 4 []]]) \<lparr>line = 5, character = 0\<rparr>))))
     \<in> set (searchPath \<lparr>line = 5, character = 0\<rparr>
         (the (symbols (fst (getSymbol freshFile
          (Some [classAt 1 9 2 [methodAt 2 3 [], methodAt 7 4 []]]) \<lparr>line = 5, character = 0\<rparr>)))))
   \<and> SourceSymbol.children (hd (the (symbols (fst (getSymbol freshFile
          (Some [classAt 1 9 2 [methodAt 2 3 [], methodAt 7 4 []]]) \<lparr>line = 5, character = 0\<rparr>)))))
     \<noteq> []
   \<and> noChildContains \<lparr>line = 5, character = 0\<rparr>
       (hd (the (symbols (fst (getSymbol freshFile
          (Some [classAt 1 9 2 [methodAt 2 3 [], methodAt 7 4 []]]) \<lparr>line = 5, character = 0\<rparr>)))))
   \<and> snd (getSymbol freshFile
          (Some [classAt 1 9 2 [methodAt 2 3 [], methodAt 7 4 []]]) \<lparr>line = 5, character = 0\<rparr>)
     = None
   \<and> map_option SourceSymbol.rangeRef (snd (getSymbol freshFile
          (Some [classAt 1 9 2 [methodAt 2 3 [], methodAt 7 4 []]]) \<lparr>line = 7, character = 2\<rparr>))
     = Some 4
   \<and> map_option SourceSymbol.children (snd (getSymbol freshFile
          (Some [classAt 1 9 2 [methodAt 2 3 [], methodAt 7 4 []]]) \<lparr>line = 7, character = 2\<rparr>))
     = Some []"
proof -
  have h1: "hd (the (symbols (fst (getSymbol freshFile
          (Some [classAt 1 9 2 [methodAt 2 3 [], methodAt 7 4 []]]) \<lparr>line = 5, character = 0\<rparr>))))
     \<in> set (searchPath \<lparr>line = 5, character = 0\<rparr>
         (the (symbols (fst (getSymbol freshFile
          (Some [classAt 1 9 2 [methodAt 2 3 [], methodAt 7 4 []]]) \<lparr>line = 5, character = 0\<rparr>)))))"
    by code_simp
  have h2: "SourceSymbol.children (hd (the (symbols (fst (getSymbol freshFile
          (Some [classAt 1 9 2 [methodAt 2 3 [], methodAt 7 4 []]]) \<lparr>line = 5, character = 0\<rparr>)))))
     \<noteq> []"
    by code_simp
  have h3: "noChildContains \<lparr>line = 5, character = 0\<rparr>
       (hd (the (symbols (fst (getSymbol freshFile
          (Some [classAt 1 9 2 [methodAt 2 3 [], methodAt 7 4 []]]) \<lparr>line = 5, character = 0\<rparr>)))))"
    by code_simp
  have h4: "map_option SourceSymbol.rangeRef (snd (getSymbol freshFile
          (Some [classAt 1 9 2 [methodAt 2 3 [], methodAt 7 4 []]]) \<lparr>line = 7, character = 2\<rparr>))
     = Some 4"
    by code_simp
  then obtain m where m: "snd (getSymbol freshFile
          (Some [classAt 1 9 2 [methodAt 2 3 [], methodAt 7 4 []]]) \<lparr>line = 7, character = 2\<rparr>) = Some m"
    by auto
  have c1: "SourceSymbol.children m = []"
    using getSymbol_never_a_parent [of freshFile
        "Some [classAt 1 9 2 [methodAt 2 3 [], methodAt 7 4 []]]" "\<lparr>line = 7, character = 2\<rparr>" m] m
    by simp
  have c2: "snd (getSymbol freshFile
          (Some [classAt 1 9 2 [methodAt 2 3 [], methodAt 7 4 []]]) \<lparr>line = 5, character = 0\<rparr>)
     = None"
    using getSymbol_never_a_parent [of freshFile
        "Some [classAt 1 9 2 [methodAt 2 3 [], methodAt 7 4 []]]" "\<lparr>line = 5, character = 0\<rparr>"] h1 h2 h3
    by blast
  show ?thesis
    using h1 h2 h3 h4 c1 c2 m by simp
qed

subsection \<open>Split of the siblings of a declaration\<close>





subsection \<open>Masking keeps the offsets\<close>

lemma length_substring: "j \<le> length s \<Longrightarrow> length (substring s i j) = j - i"
  by (auto simp: substring_def)

lemma length_replaceFrom:
  "\<forall>m. length (f m) = length m \<Longrightarrow> length (replaceFrom r f s i) = length s - i"
proof (induction r f s i rule: replaceFrom.induct)
  case (1 r f s i)
  note f = "1.prems" [rule_format]
  show ?case
  proof (cases "length s < i")
    case True
    then show ?thesis by (simp add: replaceFrom.simps)
  next
    case le: False
    show ?thesis
    proof (cases "matchAt r s i")
      case None
      with le "1.IH"(1) "1.prems" show ?thesis
        by (subst replaceFrom.simps) auto
    next
      case (Some j)
      show ?thesis
      proof (cases "i < j \<and> j \<le> length s")
        case True
        with le Some "1.IH"(2) [of j] "1.prems" show ?thesis
          by (subst replaceFrom.simps) (auto simp: f length_substring)
      next
        case False
        with le Some "1.IH"(3) [of j] "1.prems" show ?thesis
          by (subst replaceFrom.simps) (auto simp: f)
      qed
    qed
  qed
qed

lemma replaceFrom_nth:
  "i + d < length s \<Longrightarrow>
   replaceFrom r (\<lambda>m. replicate (length m) c) s i ! d = s ! (i + d)
   \<or> (replaceFrom r (\<lambda>m. replicate (length m) c) s i ! d = c \<and> covered r s (i + d))"
proof (induction r "\<lambda>m::jsstring. replicate (length m) c" s i arbitrary: d rule: replaceFrom.induct)
  case (1 r s i)
  let ?f = "\<lambda>m::jsstring. replicate (length m) c"
  from "1.prems" have le: "\<not> length s < i" and lt: "i < length s" by simp_all
  have step: "(s ! i # replaceFrom r ?f s (Suc i)) ! d = s ! (i + d)
      \<or> ((s ! i # replaceFrom r ?f s (Suc i)) ! d = c \<and> covered r s (i + d))"
    if ih: "\<And>d'. Suc i + d' < length s \<Longrightarrow>
          replaceFrom r ?f s (Suc i) ! d' = s ! (Suc i + d')
          \<or> (replaceFrom r ?f s (Suc i) ! d' = c \<and> covered r s (Suc i + d'))"
  proof (cases d)
    case 0
    then show ?thesis by simp
  next
    case (Suc d')
    with "1.prems" have "Suc i + d' < length s" by simp
    from ih [OF this] Suc show ?thesis by simp
  qed
  show ?case
  proof (cases "matchAt r s i")
    case None
    then have eq: "replaceFrom r ?f s i = s ! i # replaceFrom r ?f s (Suc i)"
      using lt by (subst replaceFrom.simps) simp
    show ?thesis
      unfolding eq by (rule step) (rule "1.hyps"(1) [OF le None lt])
  next
    case (Some j)
    show ?thesis
    proof (cases "i < j \<and> j \<le> length s")
      case True
      then have eq: "replaceFrom r ?f s i = replicate (j - i) c @ replaceFrom r ?f s j"
        using Some le by (subst replaceFrom.simps) (simp add: length_substring)
      show ?thesis
      proof (cases "d < j - i")
        case True
        have "covered r s (i + d)"
          unfolding covered_def using True Some \<open>i < j \<and> j \<le> length s\<close>
          by (intro exI [of _ i] exI [of _ j]) auto
        with True show ?thesis by (simp add: eq nth_append)
      next
        case False
        then have "j + (d - (j - i)) < length s" and e: "j + (d - (j - i)) = i + d"
          using "1.prems" True by auto
        from "1.hyps"(2) [OF le Some True this(1)] False show ?thesis
          by (simp add: eq nth_append e)
      qed
    next
      case False
      then have eq: "replaceFrom r ?f s i = s ! i # replaceFrom r ?f s (Suc i)"
        using Some lt by (subst replaceFrom.simps) auto
      show ?thesis
        unfolding eq by (rule step) (rule "1.hyps"(3) [OF le Some False lt])
    qed
  qed
qed


lemma repeat_space: "repeat (js '' '') n = replicate n 32"
  by (induction n) (simp_all add: repeat_def js_def)

lemma replaceAll_nth:
  "p < length s \<Longrightarrow>
   replaceAll r (\<lambda>m. repeat (js '' '') (length m)) s ! p = s ! p
   \<or> (replaceAll r (\<lambda>m. repeat (js '' '') (length m)) s ! p = 32 \<and> covered r s p)"
  using replaceFrom_nth [of 0 p s r 32] by (simp add: replaceAll_def repeat_space)

lemma length_replaceAll:
  "length (replaceAll r (\<lambda>m. repeat (js '' '') (length m)) s) = length s"
  by (simp add: replaceAll_def length_replaceFrom repeat_space)

lemma afterOpener_iff: "afterOpener s opener p = (\<exists>i\<le>p. endsAt s opener i)"
proof -
  have "afterOpener s opener p = (\<exists>i\<in>{0..<Suc p}. endsAt s opener i)"
    unfolding afterOpener_def list_ex_iff set_upt ..
  also have "\<dots> = (\<exists>i\<le>p. endsAt s opener i)"
    by (auto simp: less_Suc_eq_le)
  finally show ?thesis .
qed

lemma between_iff:
  "between s opener closer p =
     ((\<exists>i\<le>p. endsAt s opener i) \<and> (\<exists>j. p < j \<and> j \<le> length s \<and> startsAt s closer j))"
proof -
  have "list_ex (startsAt s closer) [Suc p..<Suc (length s)]
        = (\<exists>j\<in>{Suc p..<Suc (length s)}. startsAt s closer j)"
    unfolding list_ex_iff set_upt ..
  also have "\<dots> = (\<exists>j. p < j \<and> j \<le> length s \<and> startsAt s closer j)"
    by (auto simp: less_Suc_eq_le Suc_le_eq)
  finally show ?thesis
    by (simp add: between_def afterOpener_iff)
qed

lemma startsAt_transfer:
  assumes len: "length t = length s"
    and pw: "\<forall>q<length s. t ! q = s ! q \<or> t ! q = 32"
    and w: "32 \<notin> set w"
    and st: "startsAt t w j"
  shows "startsAt s w j"
proof -
  from st have eq: "take (length w) (drop j t) = w" by (simp add: startsAt_def)
  have "length (take (length w) (drop j t)) = length w" by (rule arg_cong [OF eq])
  then have lw: "length w \<le> length t - j" by simp
  have "take (length w) (drop j s) ! k = w ! k" if k: "k < length w" for k
  proof -
    have "take (length w) (drop j t) ! k = w ! k" by (rule arg_cong [OF eq])
    with k lw have tk: "t ! (j + k) = w ! k" by simp
    from k w have "w ! k \<noteq> 32" by (metis nth_mem)
    from k lw len have "j + k < length s" by simp
    with pw have "t ! (j + k) = s ! (j + k) \<or> t ! (j + k) = 32" by blast
    with tk \<open>w ! k \<noteq> 32\<close> have "s ! (j + k) = w ! k" by simp
    with k lw len show ?thesis by simp
  qed
  moreover have "length (take (length w) (drop j s)) = length w"
    using lw len by simp
  ultimately have "take (length w) (drop j s) = w"
    by (simp add: list_eq_iff_nth_eq)
  then show ?thesis by (simp add: startsAt_def)
qed

lemma endsAt_startsAt: "endsAt s w i = (length w \<le> i \<and> startsAt s w (i - length w))"
  by (simp add: endsAt_def startsAt_def)

lemma endsAt_transfer:
  "length t = length s \<Longrightarrow> \<forall>q<length s. t ! q = s ! q \<or> t ! q = 32 \<Longrightarrow> 32 \<notin> set w
   \<Longrightarrow> endsAt t w i \<Longrightarrow> endsAt s w i"
  using startsAt_transfer [of t s w "i - length w"] by (simp add: endsAt_startsAt)

lemma match_blockComment:
  "matchAt re_blockComment t i = Some j \<Longrightarrow> endsAt t (js ''/*'') i \<and> startsAt t (js ''*/'') j"
  by (drule matchAt_in_ends)
     (auto simp: re_blockComment_def Seqs_def endsAt_def startsAt_def split: if_splits)

lemma match_lineComment:
  "matchAt re_lineComment t i = Some j \<Longrightarrow> endsAt t (js ''//'') i"
  by (drule matchAt_in_ends)
     (auto simp: re_lineComment_def Seqs_def endsAt_def startsAt_def split: if_splits)

lemma match_doubleQuoted:
  "matchAt re_doubleQuoted t i = Some j \<Longrightarrow> endsAt t [34] i \<and> startsAt t [34] j"
  by (drule matchAt_in_ends)
     (auto simp: re_doubleQuoted_def Seqs_def endsAt_def startsAt_def split: if_splits)

lemma match_singleQuoted:
  "matchAt re_singleQuoted t i = Some j \<Longrightarrow> endsAt t [39] i \<and> startsAt t [39] j"
  by (drule matchAt_in_ends)
     (auto simp: re_singleQuoted_def Seqs_def endsAt_def startsAt_def split: if_splits)

lemma match_templateArguments:
  "matchAt re_templateArguments t i = Some j \<Longrightarrow> endsAt t (js ''<'') i \<and> startsAt t (js ''>'') j"
  by (drule matchAt_in_ends)
     (auto simp: re_templateArguments_def Seqs_def Chr_def js_def endsAt_def startsAt_def
       split: if_splits)


lemma maskedFrom_refl: "maskedFrom s s"
  by (simp add: maskedFrom_def)

lemma maskedFrom_step:
  assumes inv: "maskedFrom s t"
    and cov: "\<And>p. p < length s \<Longrightarrow> covered r t p \<Longrightarrow> maskable s p"
  shows "maskedFrom s (replaceAll r (\<lambda>m. repeat (js '' '') (length m)) t)"
proof -
  let ?out = "replaceAll r (\<lambda>m. repeat (js '' '') (length m)) t"
  from inv have len: "length t = length s"
    and pw: "\<And>p. p < length s \<Longrightarrow> t ! p = s ! p \<or> (t ! p = 32 \<and> maskable s p)"
    by (simp_all add: maskedFrom_def)
  have "?out ! p = s ! p \<or> (?out ! p = 32 \<and> maskable s p)" if p: "p < length s" for p
  proof -
    from p len have "p < length t" by simp
    from replaceAll_nth [OF this, of r] show ?thesis
    proof
      assume "?out ! p = t ! p"
      with pw [OF p] show ?thesis by auto
    next
      assume "?out ! p = 32 \<and> covered r t p"
      with cov [OF p] show ?thesis by simp
    qed
  qed
  then show ?thesis
    by (simp add: maskedFrom_def length_replaceAll len)
qed

lemma covered_between:
  assumes inv: "maskedFrom s t"
    and m: "\<And>i j. matchAt r t i = Some j \<Longrightarrow> endsAt t opener i \<and> startsAt t closer j"
    and o: "32 \<notin> set opener" and c: "32 \<notin> set closer"
    and cov: "covered r t p"
  shows "between s opener closer p"
proof -
  from inv have len: "length t = length s" and pw: "\<forall>q<length s. t ! q = s ! q \<or> t ! q = 32"
    by (auto simp: maskedFrom_def)
  from cov obtain i j where ij: "i \<le> p" "p < j" "j \<le> length t" "matchAt r t i = Some j"
    by (auto simp: covered_def)
  from m [OF ij(4)] have "endsAt t opener i" "startsAt t closer j" by simp_all
  then have "endsAt s opener i" "startsAt s closer j"
    using endsAt_transfer [OF len pw o] startsAt_transfer [OF len pw c] by simp_all
  with ij len show ?thesis
    unfolding between_iff by auto
qed

lemma covered_afterOpener:
  assumes inv: "maskedFrom s t"
    and m: "\<And>i j. matchAt r t i = Some j \<Longrightarrow> endsAt t opener i"
    and o: "32 \<notin> set opener"
    and cov: "covered r t p"
  shows "afterOpener s opener p"
proof -
  from inv have len: "length t = length s" and pw: "\<forall>q<length s. t ! q = s ! q \<or> t ! q = 32"
    by (auto simp: maskedFrom_def)
  from cov obtain i j where ij: "i \<le> p" "matchAt r t i = Some j"
    by (auto simp: covered_def)
  from m [OF ij(2)] have "endsAt s opener i"
    using endsAt_transfer [OF len pw o] by simp
  with ij show ?thesis
    unfolding afterOpener_iff by auto
qed

lemma maskedFrom_maskUnimportantText: "maskedFrom s (maskUnimportantTextDefault s)"
proof -
  let ?f = "\<lambda>m::jsstring. repeat (js '' '') (length m)"
  let ?s1 = "replaceAll re_blockComment ?f s"
  let ?s2 = "replaceAll re_lineComment ?f ?s1"
  let ?s3 = "replaceAll re_doubleQuoted ?f ?s2"
  let ?s4 = "replaceAll re_singleQuoted ?f ?s3"
  let ?s5 = "replaceAll re_templateArguments ?f ?s4"
  have 1: "maskedFrom s ?s1"
  proof (rule maskedFrom_step [OF maskedFrom_refl])
    fix p
    assume "p < length s" and cov: "covered re_blockComment s p"
    have "between s (js ''/*'') (js ''*/'') p"
      by (rule covered_between [OF maskedFrom_refl match_blockComment _ _ cov]) (simp_all add: js_def)
    then show "maskable s p" by (simp add: maskable_def)
  qed
  have 2: "maskedFrom s ?s2"
  proof (rule maskedFrom_step [OF 1])
    fix p
    assume "p < length s" and cov: "covered re_lineComment ?s1 p"
    have "afterOpener s (js ''//'') p"
      by (rule covered_afterOpener [OF 1 match_lineComment _ cov]) (simp_all add: js_def)
    then show "maskable s p" by (simp add: maskable_def)
  qed
  have 3: "maskedFrom s ?s3"
  proof (rule maskedFrom_step [OF 2])
    fix p
    assume "p < length s" and cov: "covered re_doubleQuoted ?s2 p"
    have "between s ([34]) ([34]) p"
      by (rule covered_between [OF 2 match_doubleQuoted _ _ cov]) (simp_all add: js_def)
    then show "maskable s p" by (simp add: maskable_def)
  qed
  have 4: "maskedFrom s ?s4"
  proof (rule maskedFrom_step [OF 3])
    fix p
    assume "p < length s" and cov: "covered re_singleQuoted ?s3 p"
    have "between s ([39]) ([39]) p"
      by (rule covered_between [OF 3 match_singleQuoted _ _ cov]) (simp_all add: js_def)
    then show "maskable s p" by (simp add: maskable_def)
  qed
  have 5: "maskedFrom s ?s5"
  proof (rule maskedFrom_step [OF 4])
    fix p
    assume "p < length s" and cov: "covered re_templateArguments ?s4 p"
    have "between s (js ''<'') (js ''>'') p"
      by (rule covered_between [OF 4 match_templateArguments _ _ cov]) (simp_all add: js_def)
    then show "maskable s p" by (simp add: maskable_def)
  qed
  show ?thesis
    using 5 by (simp add: maskUnimportantTextDefault_def maskUnimportantText_def Let_def)
qed

text \<open>
  C1, amended. For every string \<open>s\<close>, \<open>maskUnimportantText(s)\<close> has the length of \<open>s\<close>, and
  each of its characters is the character of \<open>s\<close> at the same offset or a space. A
  character is replaced only at an offset that lies after an opening delimiter
  (\<^verbatim>\<open>/*\<close>, \<^verbatim>\<open>//\<close>, a double quote, a single quote, \<^verbatim>\<open><\<close>) of \<open>s\<close> and, except after \<^verbatim>\<open>//\<close>,
  before a closing delimiter of the same kind (\<^verbatim>\<open>*/\<close>, the quote, \<^verbatim>\<open>>\<close>); the delimiters
  need not belong to one comment, literal or template-argument list.
\<close>

theorem maskUnimportantText_offsets:
  "length (maskUnimportantTextDefault s) = length s
   \<and> (p < length s \<longrightarrow>
        maskUnimportantTextDefault s ! p = s ! p
        \<or> (maskUnimportantTextDefault s ! p = 32 \<and> maskable s p))"
  using maskedFrom_maskUnimportantText [of s] by (simp add: maskedFrom_def)

theorem maskUnimportantText_offsets_witness:
  "length (maskUnimportantTextDefault (js ''a /* b */ c'')) = length (js ''a /* b */ c'')
   \<and> 5 < length (js ''a /* b */ c'')
   \<and> js ''a /* b */ c'' ! 5 \<noteq> 32
   \<and> maskUnimportantTextDefault (js ''a /* b */ c'') ! 5 = 32
   \<and> maskable (js ''a /* b */ c'') 5"
proof -
  have lt: "5 < length (js ''a /* b */ c'')" by (simp add: js_def)
  have ne: "js ''a /* b */ c'' ! 5 \<noteq> 32" by (simp add: js_def)
  have "maskUnimportantTextDefault (js ''a /* b */ c'') = js ''a /*   */ c''"
    by (simp add: mask_eval regex_eval)
  then have ch: "maskUnimportantTextDefault (js ''a /* b */ c'') ! 5 \<noteq> js ''a /* b */ c'' ! 5"
    by (simp add: js_def)
  show ?thesis
    using maskUnimportantText_offsets [of "js ''a /* b */ c''" 5] lt ne ch by simp
qed

text \<open>
  C1, as stated, fails in its second part: in the text \<^verbatim>\<open>"a"x"b"\<close> the \<open>x\<close> at offset 3
  stands between two string literals, in none of the regions of the spec, and is
  replaced.
\<close>

theorem maskUnimportantText_between_literals_counterexample:
  "length twoLiterals = 7
   \<and> specInterior InCode twoLiterals = [False, True, False, False, False, True, False]
   \<and> maskUnimportantTextDefault twoLiterals ! 3 \<noteq> twoLiterals ! 3"
proof -
  have "maskUnimportantTextDefault twoLiterals = [34, 32, 32, 32, 32, 32, 34]"
    by (simp add: twoLiterals_def mask_eval regex_eval)
  then show ?thesis
    by (simp add: twoLiterals_def js_def)
qed

subsection \<open>Position of a new include\<close>

lemma scanLines_unfold:
  "scanLines d i n v =
     (if n = 0 then v
      else case lineAt d i of None \<Rightarrow> v | Some l \<Rightarrow> scanLines d (Suc i) (n - 1) (scanLine l v))"
  by (cases n) (auto split: option.splits)

lemma lastNonBlankLine_unfold:
  "lastNonBlankLine d n =
     (if n = 0 then Some None
      else case lineAt d (n - 1) of
             None \<Rightarrow> None
           | Some l \<Rightarrow> if \<not> isEmptyOrWhitespace l then Some (Some (end' (TextLine.range' l)))
                       else lastNonBlankLine d (n - 1))"
  by (cases n) (auto split: option.splits)

lemmas include_eval = findPositionForNewInclude_def documentOf_def joinLines_def lineCount_def
  splitLines_def
  lineAt_def scanLine_def closeSystemBlock_def closeProjectBlock_def largestBlock_def
  newRange_def isBefore_def trim_def re_include_def re_angled_def re_quoted_def
  executeSourceSymbolProvider_def arraySort_def Let_def scanLines_unfold lastNonBlankLine_unfold

lemma greaterThan'_never: "\<not> greaterThan' a b"
proof -
  have "\<not> stringLess x x" for x by (induction x) simp_all
  then show ?thesis by (simp add: greaterThan'_def toPrimitive_def)
qed

lemma largestBlock_keeps_first: "largestBlock l startPos (Some largest) = largest"
  by (simp add: largestBlock_def Let_def greaterThan'_never)

text \<open>
  C6 does not hold of the code. In the document
  \<^verbatim>\<open>#include <a>\<close>, an empty line, \<^verbatim>\<open>#include <b>\<close>, \<^verbatim>\<open>#include <c>\<close>, \<^verbatim>\<open>#include <d>\<close>,
  an empty line, \<^verbatim>\<open>int x;\<close>
  the second run of system includes is the larger one and ends where line 5 starts;
  the function returns the end of the first run, the start of line 1, for both anchors.
\<close>

theorem findPositionForNewInclude_keeps_first_run:
  "findPositionForNewInclude
     (documentOf [js ''#include <a>'', [], js ''#include <b>'', js ''#include <c>'',
                  js ''#include <d>'', [], js ''int x;'', []]) (Some [])
   = Some (\<lparr>line = 1, character = 0\<rparr>, \<lparr>line = 1, character = 0\<rparr>)"
  by (simp add: include_eval regex_eval greaterThan'_never del: scanLines.simps lastNonBlankLine.simps)

subsection \<open>Position of a new method\<close>

lemma newSourceSymbol_fields:
  "SourceSymbol.kind (newSourceSymbol d u p) = DocumentSymbol.kind d"
  "SourceSymbol.selectionRange (newSourceSymbol d u p) = DocumentSymbol.selectionRange d"
  by (cases d, simp add: newSourceSymbol.simps Let_def)+

lemma asDocumentSymbol_fields:
  "DocumentSymbol.kind (asDocumentSymbol s) = SourceSymbol.kind s"
  "DocumentSymbol.range' (asDocumentSymbol s) = SourceSymbol.range' s"
  "DocumentSymbol.selectionRange (asDocumentSymbol s) = SourceSymbol.selectionRange s"
  by (cases s, simp)+

lemma newCSymbol_fields:
  "SourceSymbol.kind (symbol (newCSymbol src doc par)) = SourceSymbol.kind src"
  "SourceSymbol.range' (symbol (newCSymbol src doc par)) = SourceSymbol.range' src"
  "SourceSymbol.selectionRange (symbol (newCSymbol src doc par)) = SourceSymbol.selectionRange src"
  "CSymbol.document (newCSymbol src doc par) = doc"
  by (cases src,
      simp add: newCSymbol.simps Let_def newSourceSymbol_fields asDocumentSymbol_fields
        range_newSourceSymbol del: asDocumentSymbol.simps)+

lemma child_document:
  "i < length (children this) \<Longrightarrow> CSymbol.document (children this ! i) = CSymbol.document this"
  by (simp add: children_def)

lemma childSymbol_between:
  "i < length (children this) \<Longrightarrow>
   symbolIsBetween (childSymbol this i) a b = symbolIsBetween (children this ! i) a b"
  by (simp add: symbolIsBetween_def isFunction_def isAfterOffset_def isBeforeOffset_def
      childSymbol_def newCSymbol_fields child_document kind_def range'_def)


lemma childSymbol_range:
  "range' (childSymbol this i) = range' (children this ! i)"
  by (simp add: childSymbol_def newCSymbol_fields range'_def)

lemma searchDown_cong:
  "(\<And>i. i < n \<Longrightarrow> P i = Q i) \<Longrightarrow> searchDown P n = searchDown Q n"
  by (induction n) simp_all

lemma searchDown_Some_iff:
  "searchDown P n = Some i \<longleftrightarrow> (i < n \<and> P i \<and> (\<forall>j. i < j \<and> j < n \<longrightarrow> \<not> P j))"
proof (induction n)
  case 0
  show ?case by simp
next
  case (Suc n)
  show ?case
  proof (cases "P n")
    case True
    then show ?thesis
      by (auto simp: less_Suc_eq)
  next
    case False
    with Suc show ?thesis
      by (auto simp: less_Suc_eq)
  qed
qed



lemma searchDown_unfold:
  "searchDown P n =
     (if n = 0 then None else if P (n - 1) then Some (n - 1) else searchDown P (n - 1))"
  by (cases n) simp_all




lemmas symbol_eval = accessorsClass_def commentedClass_def todoClass_def accessorsSymbol_def
  rangeOf_def
  newCSymbolOfDocumentSymbol_def newSourceSymbol.simps arraySort_def compareStart_def isAfter_def
  isBefore_def Let_def children_def kind_def range'_def selectionRange_def text'_def id'_def
  getText_def offsetAt_def validatePosition_def splitLines_def joinLines_def substring_def js_def
  isFunction_def isMemberVariable_def symbolIsBetween_def isAfterOffset_def isBeforeOffset_def

lemma accessors_kind: "kind accessorsClass = ClassKind"
  by (simp add: symbol_eval)

lemma accessors_text:
  "text' accessorsClass =
     joinLines [js ''class A {'', js ''public:'', js ''  int getX();'',
                js ''  void setX(int x);'', js ''private:'', js ''  int m_x;'', js ''}'']"
  by (simp add: symbol_eval)

lemma accessors_start: "offsetAt (CSymbol.document accessorsClass) (start (range' accessorsClass)) = 0"
  by (simp add: symbol_eval)

lemma accessors_end: "offsetAt (CSymbol.document accessorsClass) (end' (range' accessorsClass)) = 73"
  by (simp add: symbol_eval)

lemma accessors_public: "publicSpecifierIndex accessorsClass = Some 10"
  by (simp add: publicSpecifierIndex_def accessors_text re_public_def joinLines_def regex_eval)

lemma accessors_matches:
  "matchAll re_accessSpecifier (text' accessorsClass) = [(10, 17), (52, 60)]"
  by (simp add: accessors_text re_accessSpecifier_def joinLines_def matchAll_def
      matchAllFrom.simps regex_eval)


lemma accessors_next: "nextAccessSpecifierOffset accessorsClass 10 = 52"
  by (simp add: nextAccessSpecifierOffset_def nextAccessSpecifierIndex_def accessors_matches
      accessors_start)

lemma accessors_length: "length (children accessorsClass) = 3"
  by (simp add: symbol_eval)

lemma accessors_between:
  "symbolIsBetween (children accessorsClass ! 0) 10 52"
  "symbolIsBetween (children accessorsClass ! Suc 0) 10 52"
  "\<not> symbolIsBetween (children accessorsClass ! 2) 10 52"
  by (simp_all add: symbol_eval)






















lemma nextAccessSpecifierOffset_at_zero:
  assumes "offsetAt (CSymbol.document this) (start (range' this)) = 0"
  shows "nextAccessSpecifierOffset this p = publicSectionEnd this p"
proof -
  have feq: "find (\<lambda>m::nat \<times> nat. fst m \<noteq> 0 \<and> fst m > p) xs = find (\<lambda>m. p < fst m) xs" for xs
    by (induction xs) auto
  show ?thesis
  proof (cases "find (\<lambda>m. p < fst m) (matchAll re_accessSpecifier (text' this))")
    case None
    then show ?thesis
      unfolding nextAccessSpecifierOffset_def nextAccessSpecifierIndex_def publicSectionEnd_def feq
      by simp
  next
    case (Some m)
    then have "p < fst m" by (auto simp: find_Some_iff)
    with Some assms show ?thesis
      unfolding nextAccessSpecifierOffset_def nextAccessSpecifierIndex_def publicSectionEnd_def feq
      by simp
  qed
qed

lemma symbolIsBetween_child:
  "i < length (children this) \<Longrightarrow> symbolIsBetween (children this ! i) a b \<Longrightarrow>
   isFunction (children this ! i)
   \<and> a < offsetAt (CSymbol.document this) (start (range' (children this ! i)))
   \<and> offsetAt (CSymbol.document this) (end' (range' (children this ! i))) < b"
  by (simp add: symbolIsBetween_def isAfterOffset_def isBeforeOffset_def child_document
      split: if_splits)

text \<open>
  C5, amended. The first \<open>public:\<close> token is located in the text of the symbol as it
  is, comments and strings included. For a class or struct that starts at offset 0 of
  its document, the public section ends at the first later token that
  \<open>re_accessSpecifier\<close> matches in that text, or at the end of the symbol when there is
  none; and a position that the function returns is either the fallback after the last
  child, or the start or the end of a function child that starts after the \<open>public:\<close>
  token and ends before the end of the public section.
\<close>

theorem findPositionForNewMethod_anchor:
  assumes cls: "kind this = ClassKind \<or> kind this = StructKind"
    and zero: "offsetAt (CSymbol.document this) (start (range' this)) = 0"
  shows "findPositionForNewMethod this relativeName memberVariable = lastChildPositionOrUndefined this
         \<or> (\<exists>p e i pos.
               findPositionForNewMethod this relativeName memberVariable = Some pos
               \<and> exec re_public (text' this) 0 = Some (p, e) \<and> p \<noteq> 0
               \<and> anchoredAt this p i pos)"
proof -
  let ?R = "findPositionForNewMethod this relativeName memberVariable"
  let ?L = "lastChildPositionOrUndefined this"
  let ?n = "length (children this)"
  from cls have k: "(kind this \<noteq> ClassKind \<and> kind this \<noteq> StructKind) = False" by auto
  show ?thesis
  proof (cases "publicSpecifierIndex this = None \<or> publicSpecifierIndex this = Some 0")
    case True
    then have "?R = ?L"
      unfolding findPositionForNewMethod_def by (simp add: k Let_def)
    then show ?thesis ..
  next
    case False
    then obtain p where p: "publicSpecifierIndex this = Some p" "p \<noteq> 0" by auto
    then obtain e where e: "exec re_public (text' this) 0 = Some (p, e)"
      by (auto simp: publicSpecifierIndex_def)
    let ?nxt = "publicSectionEnd this p"
    let ?B = "\<lambda>i. symbolIsBetween (childSymbol this i) p ?nxt"
    let ?Q = "\<lambda>i. ?B i \<and> id' (childSymbol this i) = the relativeName"
    have nxt: "nextAccessSpecifierOffset this p = ?nxt"
      by (rule nextAccessSpecifierOffset_at_zero [OF zero])
    have anchored: "anchoredAt this p i pos"
      if "i < ?n" "?B i" "value pos = start (range' (children this ! i))
                          \<or> value pos = end' (range' (children this ! i))" for i pos
      using that symbolIsBetween_child [of i this p ?nxt]
      by (simp add: anchoredAt_def childSymbol_between)
    show ?thesis
    proof (cases "searchDown ?B ?n = None \<or> searchDown ?B ?n = Some 0")
      case True
      then have "?R = ?L"
        unfolding findPositionForNewMethod_def
        by (simp add: k p zero nxt Let_def del: searchDown.simps)
      then show ?thesis ..
    next
      case False
      then obtain fi where fi: "searchDown ?B ?n = Some fi" "fi \<noteq> 0" by auto
      then have fib: "fi < ?n" "?B fi" by (simp_all add: searchDown_Some_iff)
      let ?fallback = "\<lparr>value = end' (range' (children this ! fi)),
                          before = None, after = Some True, nextTo = None\<rparr>"
      have fa: "anchoredAt this p fi ?fallback"
        by (rule anchored [OF fib]) simp
      show ?thesis
      proof (cases "truthy relativeName")
        case False
        then have "?R = Some ?fallback"
          unfolding findPositionForNewMethod_def
          by (simp add: k p zero nxt fi Let_def childSymbol_range del: searchDown.simps)
        with e p fa show ?thesis by blast
      next
        case True
        show ?thesis
        proof (cases "searchDown ?Q (Suc fi)")
          case None
          with True have "?R = Some ?fallback"
            unfolding findPositionForNewMethod_def
            by (simp add: k p zero nxt fi Let_def childSymbol_range del: searchDown.simps)
          with e p fa show ?thesis by blast
        next
          case (Some i)
          then have i: "i < Suc fi" "?B i" unfolding searchDown_Some_iff by simp_all
          with fib have ilt: "i < ?n" by simp
          let ?bef = "\<lparr>value = start (range' (children this ! i)),
                        before = Some True, after = None, nextTo = Some True\<rparr>"
          let ?aft = "\<lparr>value = end' (range' (children this ! i)),
                        before = None, after = Some True, nextTo = Some True\<rparr>"
          have ab: "anchoredAt this p i ?bef" "anchoredAt this p i ?aft"
            by (rule anchored [OF ilt i(2)], simp)+
          from True Some have "?R = Some ?bef \<or> ?R = Some ?aft"
            unfolding findPositionForNewMethod_def
            by (simp add: k p zero nxt fi Let_def childSymbol_range del: searchDown.simps)
          with e p ab show ?thesis by blast
        qed
      qed
    qed
  qed
qed


lemma accessors_ends:
  "end' (range' (children accessorsClass ! Suc 0)) = \<lparr>line = 3, character = 18\<rparr>"
  "end' (range' (children accessorsClass ! 2)) = \<lparr>line = 5, character = 9\<rparr>"
  by (simp_all add: symbol_eval)

lemma accessors_default:
  "findPositionForNewMethod accessorsClass None None =
     Some \<lparr>value = \<lparr>line = 3, character = 18\<rparr>, before = None, after = Some True, nextTo = None\<rparr>"
  unfolding findPositionForNewMethod_def
  by (simp add: accessors_kind accessors_public accessors_start accessors_next accessors_length
      Let_def searchDown_unfold childSymbol_between accessors_between truthy_def childSymbol_range
      accessors_ends del: searchDown.simps)

lemma accessors_lastChild:
  "lastChildPositionOrUndefined accessorsClass =
     Some \<lparr>value = \<lparr>line = 5, character = 9\<rparr>, before = None, after = Some True, nextTo = None\<rparr>"
  by (simp add: lastChildPositionOrUndefined_def accessors_length accessors_ends)
     (simp add: symbol_eval)

theorem findPositionForNewMethod_anchor_witness:
  "kind accessorsClass = ClassKind
   \<and> offsetAt (CSymbol.document accessorsClass) (start (range' accessorsClass)) = 0
   \<and> findPositionForNewMethod accessorsClass None None \<noteq> lastChildPositionOrUndefined accessorsClass
   \<and> (\<exists>p e i pos.
         findPositionForNewMethod accessorsClass None None = Some pos
         \<and> exec re_public (text' accessorsClass) 0 = Some (p, e) \<and> p \<noteq> 0
         \<and> anchoredAt accessorsClass p i pos)"
proof -
  have ne: "findPositionForNewMethod accessorsClass None None
            \<noteq> lastChildPositionOrUndefined accessorsClass"
    by (simp add: accessors_default accessors_lastChild)
  from findPositionForNewMethod_anchor [of accessorsClass None None] ne
  show ?thesis
    by (simp add: accessors_kind accessors_start)
qed


lemma commented_kind: "kind commentedClass = ClassKind"
  by (simp add: symbol_eval)

lemma commented_text:
  "text' commentedClass =
     joinLines [js ''class A {'', js ''// public:'', js ''int f();'', js ''int g();'',
                js ''int x;'', js ''}'']"
  by (simp add: symbol_eval)

lemma commented_start: "offsetAt (CSymbol.document commentedClass) (start (range' commentedClass)) = 0"
  by (simp add: symbol_eval)

lemma commented_end: "offsetAt (CSymbol.document commentedClass) (end' (range' commentedClass)) = 47"
  by (simp add: symbol_eval)

lemma commented_public: "publicSpecifierIndex commentedClass = Some 13"
  by (simp add: publicSpecifierIndex_def commented_text re_public_def joinLines_def regex_eval)

lemma commented_masked:
  "maskUnimportantTextDefault (text' commentedClass) =
     joinLines [js ''class A {'', js ''//        '', js ''int f();'', js ''int g();'',
                js ''int x;'', js ''}'']"
  by (simp add: commented_text joinLines_def mask_eval regex_eval)

lemma commented_masked_public:
  "exec re_public (maskUnimportantTextDefault (text' commentedClass)) 0 = None"
  by (simp add: commented_masked re_public_def joinLines_def regex_eval)

lemma commented_matches:
  "matchAll re_accessSpecifier (text' commentedClass) = [(13, 20)]"
  by (simp add: commented_text re_accessSpecifier_def joinLines_def matchAll_def
      matchAllFrom.simps regex_eval)

lemma commented_next: "nextAccessSpecifierOffset commentedClass 13 = 47"
  by (simp add: nextAccessSpecifierOffset_def nextAccessSpecifierIndex_def commented_matches
      commented_end)

lemma commented_length: "length (children commentedClass) = 3"
  by (simp add: symbol_eval)

lemma commented_between:
  "symbolIsBetween (children commentedClass ! Suc 0) 13 47"
  "\<not> symbolIsBetween (children commentedClass ! 2) 13 47"
  by (simp_all add: symbol_eval)

lemma commented_ends:
  "end' (range' (children commentedClass ! Suc 0)) = \<lparr>line = 3, character = 7\<rparr>"
  "end' (range' (children commentedClass ! 2)) = \<lparr>line = 4, character = 5\<rparr>"
  by (simp_all add: symbol_eval)

text \<open>
  C5, as stated, fails: in the class whose second line is the comment \<^verbatim>\<open>// public:\<close> the
  masked text has no \<open>public:\<close> token, yet the function finds the token at index 13 of
  the text, inside the comment, takes it for the start of the public section and
  proposes the position after \<open>g\<close>, not the end of the last child, which is what it
  proposes for a class without a public section.
\<close>

theorem findPositionForNewMethod_comment_counterexample:
  "exec re_public (maskUnimportantTextDefault (text' commentedClass)) 0 = None
   \<and> publicSpecifierIndex commentedClass = Some 13
   \<and> findPositionForNewMethod commentedClass None None =
       Some \<lparr>value = \<lparr>line = 3, character = 7\<rparr>, before = None, after = Some True, nextTo = None\<rparr>
   \<and> lastChildPositionOrUndefined commentedClass =
       Some \<lparr>value = \<lparr>line = 4, character = 5\<rparr>, before = None, after = Some True, nextTo = None\<rparr>"
proof -
  have r: "findPositionForNewMethod commentedClass None None =
       Some \<lparr>value = \<lparr>line = 3, character = 7\<rparr>, before = None, after = Some True, nextTo = None\<rparr>"
    unfolding findPositionForNewMethod_def
    by (simp add: commented_kind commented_public commented_start commented_next commented_length
        Let_def searchDown_unfold childSymbol_between commented_between truthy_def childSymbol_range
        commented_ends del: searchDown.simps)
  have l: "lastChildPositionOrUndefined commentedClass =
       Some \<lparr>value = \<lparr>line = 4, character = 5\<rparr>, before = None, after = Some True, nextTo = None\<rparr>"
    by (simp add: lastChildPositionOrUndefined_def commented_length commented_ends)
       (simp add: symbol_eval)
  show ?thesis
    using r l commented_masked_public commented_public by simp
qed

end
